theory Spec2Isabelle
  imports
    Complex_Main
    "HOL-Library.Multiset"
    "HOL-Library.Char_ord"
    "HOL-Library.List_Lexorder"
begin

section \<open>Python values, exceptions and the environment\<close>

text \<open>
  The four programs of the repository are a price tracker (\<^verbatim>\<open>crypto_tracker.py\<close>), a
  history query (\<^verbatim>\<open>query_data.py\<close>), a plot generator (\<^verbatim>\<open>crypto_visualizer.py\<close>) and
  a web dashboard (\<^verbatim>\<open>crypto_dashboard.py\<close>) over one SQLite table \<^verbatim>\<open>crypto_prices\<close>.

  Conventions of the embedding:
  \<^item> a Python exception is a value of \<open>exc\<close>; a call that may raise returns \<open>exc + 'a\<close>
    with \<open>Inl\<close> for the exception;
  \<^item> Python floats and SQLite \<^verbatim>\<open>REAL\<close>s are real numbers: the rounding of float
    arithmetic, signed zeros, infinities and \<^verbatim>\<open>NaN\<close> are not modelled. Python integers
    are \<open>int\<close>; where an integer becomes a float (when it is stored in a \<^verbatim>\<open>REAL\<close>
    column, when it is rendered with \<^verbatim>\<open>:,.2f\<close>) the conversion is written out;
  \<^item> text is \<open>string\<close>, ordered bytewise as SQLite's \<^verbatim>\<open>BINARY\<close> collation orders it;
  \<^item> the network, the wall clock and the keyboard are inputs: the outcome of
    \<^verbatim>\<open>requests.get\<close>, the readings of \<^verbatim>\<open>datetime.now()\<close> and the outcome of
    \<^verbatim>\<open>time.sleep\<close> are supplied to the functions that consume them.
\<close>

datatype exc =
    RequestException string
  | HTTPError nat
  | KeyboardInterrupt
  | KeyError string
  | TypeError
  | ValueError
  | IndexError
  | ZeroDivisionError
  | OverflowError
  | InterfaceError

text \<open>
  \<^verbatim>\<open>except requests.RequestException\<close> catches the class and its subclasses;
  \<^verbatim>\<open>HTTPError\<close> is one of them. \<open>RequestException msg\<close> stands for every other member
  of the family (connection errors, timeouts, too many redirects).
\<close>

fun is_RequestException :: "exc \<Rightarrow> bool" where
  "is_RequestException (RequestException _) = True"
| "is_RequestException (HTTPError _) = True"
| "is_RequestException _ = False"

text \<open>
  The value \<^verbatim>\<open>response.json()\<close> returns: JSON as Python reads it. \<open>JNull\<close> is
  \<^verbatim>\<open>None\<close>; a number written without fraction and exponent is an \<^verbatim>\<open>int\<close> of any
  size (\<open>JInt\<close>), every other number a \<^verbatim>\<open>float\<close> (\<open>JFloat\<close>); \<open>JObj\<close> lists the
  items of a \<^verbatim>\<open>dict\<close> (its keys are distinct).
\<close>

datatype json =
    JNull
  | JBool bool
  | JInt int
  | JFloat real
  | JStr string
  | JArr "json list"
  | JObj "(string \<times> json) list"

text \<open>Python truth value, as tested by \<^verbatim>\<open>if not crypto_data\<close> and \<^verbatim>\<open>if crypto_data\<close>.\<close>

fun truthy :: "json \<Rightarrow> bool" where
  "truthy JNull = False"
| "truthy (JBool b) = b"
| "truthy (JInt i) = (i \<noteq> 0)"
| "truthy (JFloat r) = (r \<noteq> 0)"
| "truthy (JStr s) = (s \<noteq> [])"
| "truthy (JArr xs) = (xs \<noteq> [])"
| "truthy (JObj kvs) = (kvs \<noteq> [])"

text \<open>
  Subscription with a string key, \<^verbatim>\<open>v[key]\<close>: a \<^verbatim>\<open>dict\<close> without the key raises
  \<^verbatim>\<open>KeyError\<close>, every other value raises \<^verbatim>\<open>TypeError\<close> (lists and strings take
  integer indices, the rest is not subscriptable).
\<close>

fun getitem :: "json \<Rightarrow> string \<Rightarrow> exc + json" where
  "getitem (JObj kvs) k = (case map_of kvs k of None \<Rightarrow> Inl (KeyError k) | Some v \<Rightarrow> Inr v)"
| "getitem _ k = Inl TypeError"

text \<open>
  The conversion of an integer to a 64-bit float, as C's \<^verbatim>\<open>(double)\<close> and Python's
  \<^verbatim>\<open>float()\<close> do it: the integer is kept when it has at most 53 significant bits,
  and is otherwise rounded to 53 significant bits, to the nearest value and to the even
  one on a tie.
\<close>

fun bit_length :: "nat \<Rightarrow> nat" where
  "bit_length n = (if n = 0 then 0 else Suc (bit_length (n div 2)))"

declare bit_length.simps [simp del]

definition round53 :: "nat \<Rightarrow> nat" where
  "round53 m =
     (let k = bit_length m - 53; q = m div 2 ^ k; r = m mod 2 ^ k
      in (if 2 ^ k < 2 * r \<or> (2 * r = 2 ^ k \<and> odd q) then Suc q else q) * 2 ^ k)"

definition double_of_int :: "int \<Rightarrow> real" where
  "double_of_int i = real_of_int (sgn i) * real (round53 (nat \<bar>i\<bar>))"

text \<open>
  A cell of a \<^verbatim>\<open>REAL\<close> column. \<open>adapt\<close> is the binding of a Python value as a statement
  parameter followed by the column's affinity. An \<^verbatim>\<open>int\<close> (and a \<^verbatim>\<open>bool\<close>, which is
  one) is bound as a 64-bit integer, which raises \<^verbatim>\<open>OverflowError\<close> outside the range
  from \<open>- (2 ^ 63)\<close> to \<open>2 ^ 63 - 1\<close>, and is then stored as a float; a \<^verbatim>\<open>float\<close> is stored
  as it is; \<^verbatim>\<open>None\<close> becomes \<^verbatim>\<open>NULL\<close>; text stays text; a list or a dict cannot be
  bound. (Text that spells a number would be converted by the affinity; that
  conversion is left out. Text is held as its UTF-8 bytes.)
\<close>

datatype sqlval = SqlNull | SqlReal real | SqlText string

fun adapt :: "json \<Rightarrow> exc + sqlval" where
  "adapt JNull = Inr SqlNull"
| "adapt (JBool b) = Inr (SqlReal (if b then 1 else 0))"
| "adapt (JInt i) =
     (if - (2 ^ 63) \<le> i \<and> i < 2 ^ 63 then Inr (SqlReal (double_of_int i))
      else Inl OverflowError)"
| "adapt (JFloat r) = Inr (SqlReal r)"
| "adapt (JStr s) = Inr (SqlText s)"
| "adapt (JArr _) = Inl InterfaceError"
| "adapt (JObj _) = Inl InterfaceError"

subsection \<open>Wall clock and timestamps\<close>

text \<open>A naive local \<^verbatim>\<open>datetime\<close>, as \<^verbatim>\<open>datetime.now()\<close> returns it.\<close>

record datetime =
  year :: nat
  month :: nat
  day :: nat
  hour :: nat
  minute :: nat
  second :: nat
  microsecond :: nat

definition valid_datetime :: "datetime \<Rightarrow> bool" where
  "valid_datetime dt \<longleftrightarrow>
     1000 \<le> year dt \<and> year dt \<le> 9999 \<and> 1 \<le> month dt \<and> month dt \<le> 12 \<and>
     1 \<le> day dt \<and> day dt \<le> 31 \<and> hour dt < 24 \<and> minute dt < 60 \<and> second dt < 60 \<and>
     microsecond dt < 1000000"

definition digit :: "nat \<Rightarrow> char" where
  "digit n = ''0123456789'' ! (n mod 10)"

definition pad2 :: "nat \<Rightarrow> string" where
  "pad2 n = [digit (n div 10), digit n]"

definition pad4 :: "nat \<Rightarrow> string" where
  "pad4 n = [digit (n div 1000), digit (n div 100), digit (n div 10), digit n]"

text \<open>
  \<^verbatim>\<open>dt.strftime("%Y-%m-%d %H:%M:%S")\<close>: zero-padded decimal fields; the microseconds
  are dropped. (Four digits for the year is what the C library prints for the years
  1000 to 9999.)
\<close>

definition strftime :: "datetime \<Rightarrow> string" where
  "strftime dt =
     pad4 (year dt) @ ''-'' @ pad2 (month dt) @ ''-'' @ pad2 (day dt) @ '' '' @
     pad2 (hour dt) @ '':'' @ pad2 (minute dt) @ '':'' @ pad2 (second dt)"

subsection \<open>The table and the tracker's state\<close>

text \<open>
  The five data columns of \<^verbatim>\<open>crypto_prices\<close>, with the type of the numeric cells left
  open: \<open>sqlval\<close> in the table and in what a query returns, \<open>real\<close> in a pandas frame
  whose numeric columns are \<^verbatim>\<open>float64\<close>. The tracker is the only writer: it binds a
  Python string to \<^verbatim>\<open>cryptocurrency\<close> and to \<^verbatim>\<open>timestamp\<close>, so these two cells are
  text.
\<close>

record 'v sample =
  cryptocurrency :: string
  timestamp :: string
  price_usd :: 'v
  market_cap_usd :: 'v
  volume_usd :: 'v

text \<open>One row of the table: the data columns and the \<^verbatim>\<open>id\<close>.\<close>

record row = "sqlval sample" +
  row_id :: nat

text \<open>What the tracker prints. Numbers are kept as numbers: their rendering with
  \<^verbatim>\<open>:,.2f\<close> is not modelled.\<close>

datatype line =
    Text string
  | Error_fetching_data exc
  | Time string
  | Name string
  | Price real
  | Market_Cap real
  | Volume real
  | Latest string real string

text \<open>
  The state a \<^verbatim>\<open>CryptoTracker\<close> acts on: the committed rows of the table (what every
  connection sees), the rows its own connection has inserted and not yet committed,
  the wall clock (\<open>clock w n\<close> is what the \<open>n\<close>-th call of \<^verbatim>\<open>datetime.now()\<close>
  returns) with the number of calls made so far, and the lines printed.
\<close>

record tracker =
  committed :: "row list"
  pending :: "row list"
  clock :: "nat \<Rightarrow> datetime"
  now_calls :: nat
  stdout :: "line list"

definition now :: "tracker \<Rightarrow> datetime \<times> tracker" where
  "now w = (clock w (now_calls w), w\<lparr>now_calls := Suc (now_calls w)\<rparr>)"

definition print :: "line \<Rightarrow> tracker \<Rightarrow> tracker" where
  "print l w = w\<lparr>stdout := stdout w @ [l]\<rparr>"

section \<open>The tracker (\<^verbatim>\<open>crypto_tracker.py\<close>)\<close>

subsection \<open>\<^verbatim>\<open>fetch_crypto_data\<close>\<close>

text \<open>
  What \<^verbatim>\<open>requests.get\<close> hands back: an exception, or a response with its status code
  and with what a call of \<^verbatim>\<open>response.json()\<close> does on its body.
\<close>

record response =
  status_code :: nat
  json_result :: "exc + json"

text \<open>
  \<^verbatim>\<open>Response.raise_for_status()\<close> of the requests library raises \<^verbatim>\<open>HTTPError\<close> for the
  client and server error codes 400 to 599, and returns for every other code.
\<close>

definition raise_for_status :: "response \<Rightarrow> exc + unit" where
  "raise_for_status r =
     (if 400 \<le> status_code r \<and> status_code r < 600 then Inl (HTTPError (status_code r))
      else Inr ())"

definition fetch_crypto_data :: "exc + response \<Rightarrow> tracker \<Rightarrow> (exc + json) \<times> tracker" where
  "fetch_crypto_data got w =
     (let body =
        (case got of
           Inl e \<Rightarrow> Inl e
         | Inr r \<Rightarrow> (case raise_for_status r of Inl e \<Rightarrow> Inl e | Inr _ \<Rightarrow> json_result r))
      in case body of
           Inr v \<Rightarrow> (Inr v, w)
         | Inl e \<Rightarrow>
             if is_RequestException e then (Inr JNull, print (Error_fetching_data e) w)
             else (Inl e, w))"

subsection \<open>\<^verbatim>\<open>save_to_database\<close>\<close>

text \<open>
  \<^verbatim>\<open>cursor.execute('INSERT ...', (crypto, usd, cap, vol, timestamp))\<close>: the parameters
  are bound in order; the new row gets the next \<^verbatim>\<open>AUTOINCREMENT\<close> id and stays
  uncommitted.
\<close>

definition new_row ::
  "string \<Rightarrow> sqlval \<Rightarrow> sqlval \<Rightarrow> sqlval \<Rightarrow> string \<Rightarrow> tracker \<Rightarrow> row" where
  "new_row crypto p m v ts w =
     \<lparr>cryptocurrency = crypto, timestamp = ts, price_usd = p, market_cap_usd = m,
      volume_usd = v, row_id = Suc (length (committed w) + length (pending w))\<rparr>"

definition execute_insert ::
  "string \<Rightarrow> json \<Rightarrow> json \<Rightarrow> json \<Rightarrow> string \<Rightarrow> tracker \<Rightarrow> (exc + unit) \<times> tracker" where
  "execute_insert crypto usd cap vol ts w =
     (case adapt usd of
        Inl e \<Rightarrow> (Inl e, w)
      | Inr p \<Rightarrow>
     (case adapt cap of
        Inl e \<Rightarrow> (Inl e, w)
      | Inr m \<Rightarrow>
     (case adapt vol of
        Inl e \<Rightarrow> (Inl e, w)
      | Inr v \<Rightarrow> (Inr (), w\<lparr>pending := pending w @ [new_row crypto p m v ts w]\<rparr>))))"

text \<open>The loop \<^verbatim>\<open>for crypto in cryptos\<close> of \<^verbatim>\<open>save_to_database\<close>.\<close>

fun insert_cryptos ::
  "string list \<Rightarrow> json \<Rightarrow> string \<Rightarrow> tracker \<Rightarrow> (exc + unit) \<times> tracker" where
  "insert_cryptos [] crypto_data ts w = (Inr (), w)"
| "insert_cryptos (crypto # rest) crypto_data ts w =
     (case getitem crypto_data crypto of
        Inl e \<Rightarrow> (Inl e, w)
      | Inr data \<Rightarrow>
     (case getitem data ''usd'' of
        Inl e \<Rightarrow> (Inl e, w)
      | Inr usd \<Rightarrow>
     (case getitem data ''usd_market_cap'' of
        Inl e \<Rightarrow> (Inl e, w)
      | Inr cap \<Rightarrow>
     (case getitem data ''usd_24h_vol'' of
        Inl e \<Rightarrow> (Inl e, w)
      | Inr vol \<Rightarrow>
     (case execute_insert crypto usd cap vol ts w of
        (Inl e, w') \<Rightarrow> (Inl e, w')
      | (Inr _, w') \<Rightarrow> insert_cryptos rest crypto_data ts w')))))"

definition commit :: "tracker \<Rightarrow> tracker" where
  "commit w = w\<lparr>committed := committed w @ pending w, pending := []\<rparr>"

definition cryptos :: "string list" where
  "cryptos = [''bitcoin'', ''ethereum'']"

definition save_to_database :: "json \<Rightarrow> tracker \<Rightarrow> (exc + unit) \<times> tracker" where
  "save_to_database crypto_data w =
     (if \<not> truthy crypto_data then (Inr (), w)
      else
        (case now w of
           (dt, w1) \<Rightarrow>
             (case insert_cryptos cryptos crypto_data (strftime dt) w1 of
                (Inl e, w2) \<Rightarrow> (Inl e, w2)
              | (Inr _, w2) \<Rightarrow> (Inr (), commit w2))))"

text \<open>
  An entry of the fetched data as the price API documents it, in the form that
  \<^verbatim>\<open>save_to_database\<close> stores: it has the three fields and each holds a number, an
  integer being within the 64-bit range.
\<close>

fun bindable_number :: "json \<Rightarrow> bool" where
  "bindable_number (JFloat r) = True"
| "bindable_number (JInt i) = (- (2 ^ 63) \<le> i \<and> i < 2 ^ 63)"
| "bindable_number _ = False"

definition storable :: "json \<Rightarrow> bool" where
  "storable data \<longleftrightarrow>
     list_all
       (\<lambda>k. case getitem data k of Inl _ \<Rightarrow> False | Inr v \<Rightarrow> bindable_number v)
       [''usd'', ''usd_market_cap'', ''usd_24h_vol'']"

text \<open>
  The number that a value of the fetched data stands for as an attribute of a sample:
  a float, or an integer that a float holds exactly. (The floats are the numbers; the
  float \<^verbatim>\<open>NaN\<close>, which SQLite stores as \<^verbatim>\<open>NULL\<close>, is none.)
\<close>

fun sample_value :: "json \<Rightarrow> real option" where
  "sample_value (JFloat r) = Some r"
| "sample_value (JInt i) = (if \<bar>i\<bar> \<le> 2 ^ 53 then Some (real_of_int i) else None)"
| "sample_value _ = None"

subsection \<open>\<^verbatim>\<open>display_current_prices\<close> and \<^verbatim>\<open>display_latest_stored_data\<close>\<close>

text \<open>
  \<^verbatim>\<open>f"{v:,.2f}"\<close> on a value of the fetched data: a float is rendered; an integer (and
  a boolean) is converted to a float first, which raises \<^verbatim>\<open>OverflowError\<close> when the
  float would not be finite; \<^verbatim>\<open>None\<close>, lists and dicts raise \<^verbatim>\<open>TypeError\<close>, a string
  raises \<^verbatim>\<open>ValueError\<close>. The result is the number that is rendered.
\<close>

fun format_2f :: "json \<Rightarrow> exc + real" where
  "format_2f (JFloat r) = Inr r"
| "format_2f (JInt i) =
     (if 2 ^ 1024 \<le> \<bar>double_of_int i\<bar> then Inl OverflowError else Inr (double_of_int i))"
| "format_2f (JBool b) = Inr (if b then 1 else 0)"
| "format_2f (JStr _) = Inl ValueError"
| "format_2f _ = Inl TypeError"

text \<open>The same on a cell read back from the table.\<close>

fun format_cell :: "sqlval \<Rightarrow> exc + real" where
  "format_cell (SqlReal r) = Inr r"
| "format_cell SqlNull = Inl TypeError"
| "format_cell (SqlText _) = Inl ValueError"

text \<open>\<^verbatim>\<open>str.capitalize()\<close> on ASCII text.\<close>

definition upper_char :: "char \<Rightarrow> char" where
  "upper_char c = (if CHR ''a'' \<le> c \<and> c \<le> CHR ''z'' then char_of (of_char c - (32::nat)) else c)"

definition lower_char :: "char \<Rightarrow> char" where
  "lower_char c = (if CHR ''A'' \<le> c \<and> c \<le> CHR ''Z'' then char_of (of_char c + (32::nat)) else c)"

fun capitalize :: "string \<Rightarrow> string" where
  "capitalize [] = []"
| "capitalize (c # cs) = upper_char c # map lower_char cs"

text \<open>The loop \<^verbatim>\<open>for crypto in ['bitcoin', 'ethereum']\<close> of \<^verbatim>\<open>display_current_prices\<close>:
  each line is printed before the next one is formatted.\<close>

fun display_cryptos :: "string list \<Rightarrow> json \<Rightarrow> tracker \<Rightarrow> (exc + unit) \<times> tracker" where
  "display_cryptos [] crypto_data w = (Inr (), w)"
| "display_cryptos (crypto # rest) crypto_data w =
     (case getitem crypto_data crypto of
        Inl e \<Rightarrow> (Inl e, w)
      | Inr data \<Rightarrow>
     (let w1 = print (Name (capitalize crypto)) w in
      case getitem data ''usd'' of
        Inl e \<Rightarrow> (Inl e, w1)
      | Inr usd \<Rightarrow>
     (case format_2f usd of
        Inl e \<Rightarrow> (Inl e, w1)
      | Inr p \<Rightarrow>
     (let w2 = print (Price p) w1 in
      case getitem data ''usd_market_cap'' of
        Inl e \<Rightarrow> (Inl e, w2)
      | Inr cap \<Rightarrow>
     (case format_2f cap of
        Inl e \<Rightarrow> (Inl e, w2)
      | Inr m \<Rightarrow>
     (let w3 = print (Market_Cap m) w2 in
      case getitem data ''usd_24h_vol'' of
        Inl e \<Rightarrow> (Inl e, w3)
      | Inr vol \<Rightarrow>
     (case format_2f vol of
        Inl e \<Rightarrow> (Inl e, w3)
      | Inr v \<Rightarrow> display_cryptos rest crypto_data (print (Volume v) w3))))))))"

definition display_current_prices :: "json \<Rightarrow> tracker \<Rightarrow> (exc + unit) \<times> tracker" where
  "display_current_prices crypto_data w =
     (if \<not> truthy crypto_data then (Inr (), w)
      else
        (case now w of
           (dt, w1) \<Rightarrow> display_cryptos cryptos crypto_data (print (Time (strftime dt)) w1)))"

text \<open>
  \<^verbatim>\<open>SELECT price_usd, timestamp ... WHERE cryptocurrency = ? ORDER BY timestamp DESC
  LIMIT 1\<close> followed by \<^verbatim>\<open>fetchone()\<close>, on the rows the tracker's connection sees: the
  row of the asset with the greatest timestamp, and of several such rows the one
  inserted first.
\<close>

definition latest_stored :: "string \<Rightarrow> row list \<Rightarrow> (sqlval \<times> string) option" where
  "latest_stored crypto rows =
     (let candidates = filter (\<lambda>r. cryptocurrency r = crypto) rows in
      case filter (\<lambda>r. timestamp r = Max (set (map timestamp candidates))) candidates of
        [] \<Rightarrow> None
      | r # _ \<Rightarrow> Some (price_usd r, timestamp r))"

fun display_latest :: "string list \<Rightarrow> tracker \<Rightarrow> (exc + unit) \<times> tracker" where
  "display_latest [] w = (Inr (), w)"
| "display_latest (crypto # rest) w =
     (case latest_stored crypto (committed w @ pending w) of
        None \<Rightarrow> display_latest rest w
      | Some (price, ts) \<Rightarrow>
          (case format_cell price of
             Inl e \<Rightarrow> (Inl e, w)
           | Inr p \<Rightarrow> display_latest rest (print (Latest (capitalize crypto) p ts) w)))"

definition display_latest_stored_data :: "tracker \<Rightarrow> (exc + unit) \<times> tracker" where
  "display_latest_stored_data w =
     display_latest cryptos (print (Text ''Latest stored data from database:'') w)"

subsection \<open>\<^verbatim>\<open>run\<close>\<close>

text \<open>
  \<^verbatim>\<open>time.sleep(interval)\<close> either lets the interval elapse or is cut short by Ctrl+C,
  which raises \<^verbatim>\<open>KeyboardInterrupt\<close>. The interval is a valid duration: its value plays
  no part in what follows.
\<close>

datatype sleep_outcome = Elapsed | Interrupted

definition sleep :: "sleep_outcome \<Rightarrow> tracker \<Rightarrow> (exc + unit) \<times> tracker" where
  "sleep ev w = (case ev of Elapsed \<Rightarrow> (Inr (), w) | Interrupted \<Rightarrow> (Inl KeyboardInterrupt, w))"

text \<open>The block under \<^verbatim>\<open>if crypto_data:\<close> in the loop.\<close>

definition process :: "json \<Rightarrow> tracker \<Rightarrow> (exc + unit) \<times> tracker" where
  "process crypto_data w =
     (case save_to_database crypto_data w of
        (Inl e, w1) \<Rightarrow> (Inl e, w1)
      | (Inr _, w1) \<Rightarrow>
     (case display_current_prices crypto_data w1 of
        (Inl e, w2) \<Rightarrow> (Inl e, w2)
      | (Inr _, w2) \<Rightarrow> display_latest_stored_data w2))"

text \<open>
  One pass through the body of \<^verbatim>\<open>while True\<close>, given what the network and the sleep
  do during that pass.
\<close>

definition iteration ::
  "(exc + response) \<times> sleep_outcome \<Rightarrow> tracker \<Rightarrow> (exc + unit) \<times> tracker" where
  "iteration env w =
     (case fetch_crypto_data (fst env) w of
        (Inl e, w1) \<Rightarrow> (Inl e, w1)
      | (Inr crypto_data, w1) \<Rightarrow>
          (case (if truthy crypto_data then process crypto_data w1 else (Inr (), w1)) of
             (Inl e, w2) \<Rightarrow> (Inl e, w2)
           | (Inr _, w2) \<Rightarrow> sleep (snd env) w2))"

text \<open>
  The loop over a finite schedule of passes. \<open>Inr ()\<close> means that the schedule is
  used up and the loop is still going; \<open>Inl e\<close> that \<open>e\<close> left the loop.
\<close>

fun loop :: "((exc + response) \<times> sleep_outcome) list \<Rightarrow> tracker \<Rightarrow> (exc + unit) \<times> tracker" where
  "loop [] w = (Inr (), w)"
| "loop (env # envs) w =
     (case iteration env w of
        (Inl e, w') \<Rightarrow> (Inl e, w')
      | (Inr _, w') \<Rightarrow> loop envs w')"

text \<open>\<^verbatim>\<open>conn.close()\<close> drops what the connection has not committed.\<close>

definition close :: "tracker \<Rightarrow> tracker" where
  "close w = w\<lparr>pending := []\<rparr>"

datatype run_result = Still_running | Stopped

text \<open>
  \<^verbatim>\<open>run\<close>: the loop inside \<^verbatim>\<open>try ... except KeyboardInterrupt ... finally\<close>. Only an
  exception other than \<^verbatim>\<open>KeyboardInterrupt\<close> propagates to the caller.
\<close>

definition run ::
  "((exc + response) \<times> sleep_outcome) list \<Rightarrow> tracker \<Rightarrow> (exc + run_result) \<times> tracker" where
  "run envs w =
     (case loop envs
             (print (Text ''Press Ctrl+C to stop'')
               (print (Text ''Starting cryptocurrency price tracker...'') w)) of
        (Inr _, w') \<Rightarrow> (Inr Still_running, w')
      | (Inl e, w') \<Rightarrow>
          if e = KeyboardInterrupt
          then (Inr Stopped, close (print (Text ''Stopping price tracker...'') w'))
          else (Inl e, close w'))"

section \<open>Reading the table\<close>

text \<open>
  The readers open their own connection, so they see the committed rows. Each query
  below is a function of the list of these rows in table order.
\<close>

subsection \<open>\<^verbatim>\<open>CryptoDashboard.fetch_latest_prices\<close>\<close>

text \<open>The subquery \<^verbatim>\<open>SELECT cryptocurrency, MAX(timestamp) ... GROUP BY cryptocurrency\<close>.\<close>

definition max_timestamps :: "row list \<Rightarrow> (string \<times> string) list" where
  "max_timestamps rows =
     map (\<lambda>c. (c, Max (set (map timestamp (filter (\<lambda>r. cryptocurrency r = c) rows)))))
       (remdups (map cryptocurrency rows))"

text \<open>
  \<^verbatim>\<open>SELECT cryptocurrency, price_usd, timestamp FROM crypto_prices
  WHERE (cryptocurrency, timestamp) IN (...)\<close>: every row of the table whose pair is
  among the pairs of the subquery.
\<close>

definition fetch_latest_prices :: "row list \<Rightarrow> (string \<times> sqlval \<times> string) list" where
  "fetch_latest_prices rows =
     map (\<lambda>r. (cryptocurrency r, price_usd r, timestamp r))
       (filter (\<lambda>r. (cryptocurrency r, timestamp r) \<in> set (max_timestamps rows)) rows)"

subsection \<open>\<^verbatim>\<open>fetch_historical_data\<close> and \<^verbatim>\<open>fetch_data\<close>\<close>

definition columns :: "row \<Rightarrow> sqlval sample" where
  "columns r =
     \<lparr>cryptocurrency = cryptocurrency r, timestamp = timestamp r, price_usd = price_usd r,
      market_cap_usd = market_cap_usd r, volume_usd = volume_usd r\<rparr>"

text \<open>
  \<^verbatim>\<open>SELECT cryptocurrency, timestamp, price_usd, market_cap_usd, volume_usd
  FROM crypto_prices WHERE timestamp >= ? ORDER BY timestamp ASC\<close>, the query of
  \<^verbatim>\<open>CryptoDashboard.fetch_historical_data\<close> and of \<^verbatim>\<open>CryptoVisualizer.fetch_data\<close>.
  The parameter is the text \<^verbatim>\<open>time_threshold\<close> that both compute from the clock and
  \<^verbatim>\<open>hours\<close>; text is compared bytewise. (Rows with equal timestamps come in an order
  SQL leaves open; here in table order.)
\<close>

definition fetch_historical_data :: "string \<Rightarrow> row list \<Rightarrow> sqlval sample list" where
  "fetch_historical_data time_threshold rows =
     map columns (sort_key timestamp (filter (\<lambda>r. time_threshold \<le> timestamp r) rows))"

subsection \<open>\<^verbatim>\<open>query_crypto_history\<close> (\<^verbatim>\<open>query_data.py\<close>)\<close>

text \<open>
  \<^verbatim>\<open>SELECT timestamp, price_usd FROM crypto_prices WHERE cryptocurrency = ? AND
  timestamp >= ? ORDER BY timestamp ASC\<close> followed by \<^verbatim>\<open>fetchall()\<close>.
\<close>

definition history :: "string \<Rightarrow> string \<Rightarrow> row list \<Rightarrow> (string \<times> sqlval) list" where
  "history crypto time_threshold rows =
     map (\<lambda>r. (timestamp r, price_usd r))
       (sort_key timestamp
         (filter (\<lambda>r. cryptocurrency r = crypto \<and> time_threshold \<le> timestamp r) rows))"

text \<open>Python's \<^verbatim>\<open>xs[i]\<close> on a list: a negative index counts from the end.\<close>

definition index :: "'a list \<Rightarrow> int \<Rightarrow> exc + 'a" where
  "index xs i =
     (if 0 \<le> i \<and> i < int (length xs) then Inr (xs ! nat i)
      else if i < 0 \<and> - int (length xs) \<le> i then Inr (xs ! (length xs - nat (- i)))
      else Inl IndexError)"

text \<open>
  Lines 31 to 33 of \<^verbatim>\<open>query_data.py\<close>:
  \<^verbatim>\<open>first_price = results[0][1]; last_price = results[-1][1];
  price_change = ((last_price - first_price) / first_price) * 100\<close>.
  The cells arrive as Python values: a float for \<^verbatim>\<open>REAL\<close>, \<^verbatim>\<open>None\<close> for \<^verbatim>\<open>NULL\<close>, a
  \<^verbatim>\<open>str\<close> for text; subtraction is defined on two floats only.
\<close>

definition price_change :: "(string \<times> sqlval) list \<Rightarrow> exc + real" where
  "price_change results =
     (case index results 0 of
        Inl e \<Rightarrow> Inl e
      | Inr first_row \<Rightarrow>
     (case index results (- 1) of
        Inl e \<Rightarrow> Inl e
      | Inr last_row \<Rightarrow>
     (case (snd last_row, snd first_row) of
        (SqlReal last_price, SqlReal first_price) \<Rightarrow>
          if first_price = 0 then Inl ZeroDivisionError
          else Inr ((last_price - first_price) / first_price * 100)
      | _ \<Rightarrow> Inl TypeError)))"

text \<open>The lines \<^verbatim>\<open>print(f"{timestamp}: ${price:,.2f}")\<close>, one per result.\<close>

fun print_history :: "(string \<times> sqlval) list \<Rightarrow> exc + (string \<times> real) list" where
  "print_history [] = Inr []"
| "print_history ((ts, price) # rest) =
     (case format_cell price of
        Inl e \<Rightarrow> Inl e
      | Inr p \<Rightarrow> (case print_history rest of Inl e \<Rightarrow> Inl e | Inr ls \<Rightarrow> Inr ((ts, p) # ls)))"

datatype report = No_data | Price_history "(string \<times> real) list" real

text \<open>The body of the loop over the two cryptocurrencies: \<^verbatim>\<open>if results: ... else: ...\<close>.\<close>

definition crypto_report :: "string \<Rightarrow> string \<Rightarrow> row list \<Rightarrow> exc + report" where
  "crypto_report crypto time_threshold rows =
     (let results = history crypto time_threshold rows in
      if results = [] then Inr No_data
      else
        (case print_history results of
           Inl e \<Rightarrow> Inl e
         | Inr ls \<Rightarrow>
             (case price_change results of
                Inl e \<Rightarrow> Inl e
              | Inr c \<Rightarrow> Inr (Price_history ls c))))"

fun crypto_reports :: "string list \<Rightarrow> string \<Rightarrow> row list \<Rightarrow> exc + report list" where
  "crypto_reports [] time_threshold rows = Inr []"
| "crypto_reports (crypto # rest) time_threshold rows =
     (case crypto_report crypto time_threshold rows of
        Inl e \<Rightarrow> Inl e
      | Inr r \<Rightarrow>
          (case crypto_reports rest time_threshold rows of
             Inl e \<Rightarrow> Inl e
           | Inr rs \<Rightarrow> Inr (r # rs)))"

definition query_crypto_history :: "string \<Rightarrow> row list \<Rightarrow> exc + report list" where
  "query_crypto_history time_threshold rows = crypto_reports cryptos time_threshold rows"

subsection \<open>Summary statistics (\<^verbatim>\<open>crypto_visualizer.py\<close>, \<^verbatim>\<open>crypto_dashboard.py\<close>)\<close>

text \<open>
  \<^verbatim>\<open>pd.read_sql_query\<close> turns the result of the query into a frame. When every numeric
  cell is a \<^verbatim>\<open>REAL\<close> the three numeric columns are \<^verbatim>\<open>float64\<close>; that is the frame
  modelled here. (With \<^verbatim>\<open>NULL\<close> or text cells pandas builds columns with \<^verbatim>\<open>NaN\<close> or of
  dtype \<^verbatim>\<open>object\<close>: \<open>None\<close> stands for these frames.)
\<close>

fun float_cell :: "sqlval \<Rightarrow> real option" where
  "float_cell (SqlReal r) = Some r"
| "float_cell _ = None"

definition float_sample :: "sqlval sample \<Rightarrow> real sample option" where
  "float_sample s =
     (case (float_cell (price_usd s), float_cell (market_cap_usd s), float_cell (volume_usd s)) of
        (Some p, Some m, Some v) \<Rightarrow>
          Some \<lparr>cryptocurrency = cryptocurrency s, timestamp = timestamp s, price_usd = p,
                market_cap_usd = m, volume_usd = v\<rparr>
      | _ \<Rightarrow> None)"

fun read_frame :: "sqlval sample list \<Rightarrow> real sample list option" where
  "read_frame [] = Some []"
| "read_frame (s # ss) =
     (case float_sample s of
        None \<Rightarrow> None
      | Some f \<Rightarrow> (case read_frame ss of None \<Rightarrow> None | Some fs \<Rightarrow> Some (f # fs)))"

text \<open>
  A \<^verbatim>\<open>numpy.float64\<close> result. Dividing by zero does not raise: it yields
  \<^verbatim>\<open>inf\<close>, \<^verbatim>\<open>-inf\<close> or \<^verbatim>\<open>nan\<close>, and so does every further operation on these.
\<close>

datatype float64 = Finite real | Non_finite

definition np_price_change :: "real \<Rightarrow> real \<Rightarrow> float64" where
  "np_price_change first_price last_price =
     (if first_price = 0 then Non_finite
      else Finite ((last_price - first_price) / first_price * 100))"

text \<open>One entry of the summary; the values are those that are then rendered as text.\<close>

record stats =
  Cryptocurrency :: string
  Current_Price :: real
  Price_Change :: float64
  Highest_Price :: real
  Lowest_Price :: real
  Average_Volume :: real

text \<open>
  The body of \<^verbatim>\<open>for crypto in ['bitcoin', 'ethereum']\<close> in
  \<^verbatim>\<open>CryptoVisualizer.generate_summary_statistics\<close>; lines 176 to 190 of
  \<^verbatim>\<open>crypto_dashboard.py\<close> compute the same entry. \<open>hd\<close> and \<open>last\<close> are
  \<^verbatim>\<open>.iloc[0]\<close> and \<^verbatim>\<open>.iloc[-1]\<close>, used under the guard \<^verbatim>\<open>if not crypto_data.empty\<close>.
\<close>

definition crypto_stats :: "string \<Rightarrow> real sample list \<Rightarrow> stats list" where
  "crypto_stats crypto df =
     (let crypto_data = filter (\<lambda>r. cryptocurrency r = crypto) df in
      if crypto_data = [] then []
      else
        (let first_price = price_usd (hd crypto_data);
             last_price = price_usd (last crypto_data)
         in [\<lparr>Cryptocurrency = capitalize crypto,
              Current_Price = last_price,
              Price_Change = np_price_change first_price last_price,
              Highest_Price = Max (set (map price_usd crypto_data)),
              Lowest_Price = Min (set (map price_usd crypto_data)),
              Average_Volume =
                sum_list (map volume_usd crypto_data) / real (length crypto_data)\<rparr>]))"

definition generate_summary_statistics :: "real sample list \<Rightarrow> stats list" where
  "generate_summary_statistics df = concat (map (\<lambda>crypto. crypto_stats crypto df) cryptos)"

text \<open>
  \<^verbatim>\<open>generate_summary_statistics(hours)\<close> as a whole: the query, the frame, the entries.
\<close>

definition summary_since :: "string \<Rightarrow> row list \<Rightarrow> stats list option" where
  "summary_since time_threshold rows =
     map_option generate_summary_statistics
       (read_frame (fetch_historical_data time_threshold rows))"

section \<open>Example data\<close>

text \<open>
  The scenario of the specification: bitcoin at 100 USD at a time \<open>T0\<close> and at
  110 USD at a later time \<open>T1\<close>, as a frame read from the table.
\<close>

definition T0 :: string where
  "T0 = ''2024-01-01 12:00:00''"

definition T1 :: string where
  "T1 = ''2024-01-01 12:01:00''"

definition scenario :: "real sample list" where
  "scenario =
     [\<lparr>cryptocurrency = ''bitcoin'', timestamp = T0, price_usd = 100,
       market_cap_usd = 2000, volume_usd = 7\<rparr>,
      \<lparr>cryptocurrency = ''bitcoin'', timestamp = T1, price_usd = 110,
       market_cap_usd = 2200, volume_usd = 9\<rparr>]"

text \<open>The table after two passes of the tracker, one at \<open>T0\<close> and one at \<open>T1\<close>.\<close>

definition table :: "row list" where
  "table =
     [\<lparr>cryptocurrency = ''bitcoin'', timestamp = T0, price_usd = SqlReal 100,
       market_cap_usd = SqlReal 2000, volume_usd = SqlReal 7, row_id = 1\<rparr>,
      \<lparr>cryptocurrency = ''ethereum'', timestamp = T0, price_usd = SqlReal 20,
       market_cap_usd = SqlReal 300, volume_usd = SqlReal 4, row_id = 2\<rparr>,
      \<lparr>cryptocurrency = ''bitcoin'', timestamp = T1, price_usd = SqlReal 110,
       market_cap_usd = SqlReal 2200, volume_usd = SqlReal 9, row_id = 3\<rparr>,
      \<lparr>cryptocurrency = ''ethereum'', timestamp = T1, price_usd = SqlReal 21,
       market_cap_usd = SqlReal 310, volume_usd = SqlReal 5, row_id = 4\<rparr>]"

text \<open>
  A clock whose readings are one millisecond apart, starting at noon: a tracker that
  reads it twice reads the same second twice.
\<close>

definition noon :: datetime where
  "noon = \<lparr>year = 2024, month = 1, day = 1, hour = 12, minute = 0, second = 0, microsecond = 0\<rparr>"

definition tracker0 :: tracker where
  "tracker0 =
     \<lparr>committed = [], pending = [], clock = (\<lambda>n. noon\<lparr>microsecond := 1000 * n\<rparr>),
      now_calls = 0, stdout = []\<rparr>"

text \<open>Payloads of the price API, and two that lack a tracked asset.\<close>

definition quote :: "real \<Rightarrow> real \<Rightarrow> real \<Rightarrow> json" where
  "quote p m v =
     JObj [(''usd'', JFloat p), (''usd_market_cap'', JFloat m), (''usd_24h_vol'', JFloat v)]"

definition payload :: json where
  "payload = JObj [(''bitcoin'', quote 100 2000 7), (''ethereum'', quote 20 300 4)]"

definition payload' :: json where
  "payload' = JObj [(''bitcoin'', quote 110 2200 9), (''ethereum'', quote 21 310 5)]"


definition integer_payload :: json where
  "integer_payload =
     JObj [(''bitcoin'', JObj [(''usd'', JInt 97000), (''usd_market_cap'', JInt 1900000000000),
                               (''usd_24h_vol'', JFloat 7)]),
           (''ethereum'', quote 20 300 4)]"

text \<open>A payload whose bitcoin price is the integer \<open>2 ^ 63\<close>, and that lacks ethereum.\<close>

definition oversized :: json where
  "oversized =
     JObj [(''bitcoin'', JObj [(''usd'', JInt (2 ^ 63)), (''usd_market_cap'', JFloat 2000),
                               (''usd_24h_vol'', JFloat 7)])]"

definition error_body :: json where
  "error_body = JObj [(''status'', JObj [(''error_code'', JInt 429)])]"

section \<open>Properties of the query layer\<close>

subsection \<open>Percent change\<close>

lemma index_first: "xs \<noteq> [] \<Longrightarrow> index xs 0 = Inr (hd xs)"
  by (simp add: index_def hd_conv_nth)

lemma index_last: "xs \<noteq> [] \<Longrightarrow> index xs (- 1) = Inr (last xs)"
  by (cases xs rule: rev_cases) (simp_all add: index_def)

lemma index_Nil: "index [] i = Inl IndexError"
  by (simp add: index_def)

lemma sorted_hd_last:
  fixes xs :: "'a::linorder list"
  assumes "sorted xs" "x \<in> set xs"
  shows "hd xs \<le> x \<and> x \<le> last xs"
  using assms
proof (induction xs)
  case Nil then show ?case by simp
next
  case (Cons a xs)
  then show ?case by (cases "xs = []") auto
qed

lemma price_change_floats:
  assumes "S \<noteq> []" "snd (hd S) = SqlReal p0" "snd (last S) = SqlReal p1"
  shows "price_change S =
          (if p0 = 0 then Inl ZeroDivisionError else Inr ((p1 - p0) / p0 * 100))"
  using assms by (simp add: price_change_def index_first index_last)

lemma sorted_history: "sorted (map fst (history c t rows))"
proof -
  have "map fst (history c t rows) =
        map timestamp (sort_key timestamp (filter (\<lambda>r. cryptocurrency r = c \<and> t \<le> timestamp r) rows))"
    by (simp add: history_def comp_def)
  then show ?thesis by simp
qed

lemma crypto_stats_single:
  assumes "D \<noteq> []" "\<forall>r\<in>set D. cryptocurrency r = c"
  shows "crypto_stats c D =
     [\<lparr>Cryptocurrency = capitalize c, Current_Price = price_usd (last D),
       Price_Change = np_price_change (price_usd (hd D)) (price_usd (last D)),
       Highest_Price = Max (set (map price_usd D)),
       Lowest_Price = Min (set (map price_usd D)),
       Average_Volume = sum_list (map volume_usd D) / real (length D)\<rparr>]"
proof -
  from assms(2) have "filter (\<lambda>r. cryptocurrency r = c) D = D" by (simp add: filter_id_conv)
  with assms(1) show ?thesis by (simp add: crypto_stats_def Let_def)
qed

text \<open>
  Claim C1. For a non-empty, time-ordered sequence of samples of one asset whose first
  price is not zero, the percent change computed by \<^verbatim>\<open>query_data.py\<close> and the one in
  the summary entry both equal \<open>(last price - first price) / first price * 100\<close>,
  and the first and the last row carry the least and the greatest timestamp of the
  sequence.
\<close>

theorem percent_change_formula:
  fixes D :: "real sample list"
  assumes "D \<noteq> []" and "sorted (map timestamp D)"
    and "\<forall>r\<in>set D. cryptocurrency r = c" and "price_usd (hd D) \<noteq> 0"
  shows "price_change (map (\<lambda>r. (timestamp r, SqlReal (price_usd r))) D) =
           Inr ((price_usd (last D) - price_usd (hd D)) / price_usd (hd D) * 100) \<and>
         map Price_Change (crypto_stats c D) =
           [Finite ((price_usd (last D) - price_usd (hd D)) / price_usd (hd D) * 100)] \<and>
         (\<forall>r\<in>set D. timestamp (hd D) \<le> timestamp r \<and> timestamp r \<le> timestamp (last D))"
proof (intro conjI)
  let ?S = "map (\<lambda>r. (timestamp r, SqlReal (price_usd r))) D"
  have "?S \<noteq> []" "snd (hd ?S) = SqlReal (price_usd (hd D))" "snd (last ?S) = SqlReal (price_usd (last D))"
    using assms(1) by (simp_all add: hd_map last_map)
  from price_change_floats[OF this] assms(4)
  show "price_change ?S = Inr ((price_usd (last D) - price_usd (hd D)) / price_usd (hd D) * 100)"
    by simp
  show "map Price_Change (crypto_stats c D) =
           [Finite ((price_usd (last D) - price_usd (hd D)) / price_usd (hd D) * 100)]"
    using assms(4) by (simp add: crypto_stats_single[OF assms(1,3)] np_price_change_def)
  show "\<forall>r\<in>set D. timestamp (hd D) \<le> timestamp r \<and> timestamp r \<le> timestamp (last D)"
  proof
    fix r assume "r \<in> set D"
    then have "timestamp r \<in> set (map timestamp D)" by simp
    from sorted_hd_last[OF assms(2) this] assms(1)
    show "timestamp (hd D) \<le> timestamp r \<and> timestamp r \<le> timestamp (last D)"
      by (simp add: hd_map last_map)
  qed
qed

theorem percent_change_formula_witness:
  "price_change [(T0, SqlReal 100), (T1, SqlReal 110)] = Inr 10 \<and>
   map Price_Change (crypto_stats ''bitcoin'' scenario) = [Finite 10]"
proof -
  have "scenario \<noteq> []" and "sorted (map timestamp scenario)"
    and "\<forall>r\<in>set scenario. cryptocurrency r = ''bitcoin''"
    and "price_usd (hd scenario) \<noteq> 0"
    by (simp_all add: scenario_def T0_def T1_def)
  from percent_change_formula [OF this] show ?thesis
    by (simp add: scenario_def)
qed

text \<open>
  Claim C5. On a non-empty sequence whose first price is 0, \<open>price_change\<close> raises
  \<^verbatim>\<open>ZeroDivisionError\<close>; on the empty sequence it raises \<^verbatim>\<open>IndexError\<close>. Its caller
  guards the call: with no result rows the report is "no data" and nothing is raised.
\<close>

theorem percent_change_errors:
  "(S \<noteq> [] \<and> snd (hd S) = SqlReal 0 \<and> snd (last S) = SqlReal p \<longrightarrow>
      price_change S = Inl ZeroDivisionError) \<and>
   price_change [] = Inl IndexError \<and>
   (history c t rows = [] \<longrightarrow> crypto_report c t rows = Inr No_data)"
proof (intro conjI impI)
  assume "S \<noteq> [] \<and> snd (hd S) = SqlReal 0 \<and> snd (last S) = SqlReal p"
  then show "price_change S = Inl ZeroDivisionError"
    using price_change_floats [of S 0 p] by simp
next
  show "price_change [] = Inl IndexError"
    by (simp add: price_change_def index_Nil)
next
  assume "history c t rows = []"
  then show "crypto_report c t rows = Inr No_data"
    by (simp add: crypto_report_def)
qed

theorem percent_change_errors_witness:
  "price_change [(''2024-01-01 12:00:00'', SqlReal 0), (''2024-01-01 12:01:00'', SqlReal 110)]
     = Inl ZeroDivisionError \<and>
   crypto_report ''bitcoin'' ''2024-01-01 00:00:00'' [] = Inr No_data"
  using percent_change_errors [of
    "[(''2024-01-01 12:00:00'', SqlReal 0), (''2024-01-01 12:01:00'', SqlReal 110)]" 110
    "''bitcoin''" "''2024-01-01 00:00:00''" "[]"]
  by (simp add: history_def)

subsection \<open>Summary statistics\<close>

lemma price_change_of_floats:
  fixes D :: "real sample list"
  assumes "D \<noteq> []"
  shows "price_change (map (\<lambda>r. (timestamp r, SqlReal (price_usd r))) D) =
           (if price_usd (hd D) = 0 then Inl ZeroDivisionError
            else Inr ((price_usd (last D) - price_usd (hd D)) / price_usd (hd D) * 100))"
  using assms by (intro price_change_floats) (simp_all add: hd_map last_map)

text \<open>
  Claim C6. The summary has the entry of bitcoin followed by the entry of ethereum. An
  asset with no row in the frame has no entry. An asset with rows has exactly one
  entry: its current price is the price of the last row, its price change is the
  percent change of the rows whenever that is defined, its highest and lowest price
  are the greatest and the least price among the rows, and its average volume is the
  mean of the volumes.
\<close>

theorem summary_statistics:
  fixes df :: "real sample list"
  assumes "rows = filter (\<lambda>r. cryptocurrency r = c) df"
  shows "generate_summary_statistics df = crypto_stats ''bitcoin'' df @ crypto_stats ''ethereum'' df \<and>
    (rows = [] \<longrightarrow> crypto_stats c df = []) \<and>
    (rows \<noteq> [] \<longrightarrow>
      (\<exists>s. crypto_stats c df = [s] \<and>
           Cryptocurrency s = capitalize c \<and>
           Current_Price s = price_usd (last rows) \<and>
           (\<forall>v. price_change (map (\<lambda>r. (timestamp r, SqlReal (price_usd r))) rows) = Inr v
                \<longrightarrow> Price_Change s = Finite v) \<and>
           Highest_Price s \<in> price_usd ` set rows \<and>
           (\<forall>r\<in>set rows. price_usd r \<le> Highest_Price s) \<and>
           Lowest_Price s \<in> price_usd ` set rows \<and>
           (\<forall>r\<in>set rows. Lowest_Price s \<le> price_usd r) \<and>
           Average_Volume s * real (length rows) = sum_list (map volume_usd rows)))"
proof (intro conjI impI)
  show "generate_summary_statistics df = crypto_stats ''bitcoin'' df @ crypto_stats ''ethereum'' df"
    by (simp add: generate_summary_statistics_def cryptos_def)
next
  assume "rows = []"
  with assms show "crypto_stats c df = []" by (simp add: crypto_stats_def)
next
  assume ne: "rows \<noteq> []"
  let ?s = "\<lparr>Cryptocurrency = capitalize c, Current_Price = price_usd (last rows),
       Price_Change = np_price_change (price_usd (hd rows)) (price_usd (last rows)),
       Highest_Price = Max (set (map price_usd rows)),
       Lowest_Price = Min (set (map price_usd rows)),
       Average_Volume = sum_list (map volume_usd rows) / real (length rows)\<rparr>"
  have fin: "finite (price_usd ` set rows)" and nonempty: "price_usd ` set rows \<noteq> {}"
    using ne by simp_all
  have 1: "crypto_stats c df = [?s]"
    using ne assms by (simp add: crypto_stats_def Let_def)
  have 2: "\<forall>v. price_change (map (\<lambda>r. (timestamp r, SqlReal (price_usd r))) rows) = Inr v
                \<longrightarrow> Price_Change ?s = Finite v"
    using ne by (auto simp: price_change_of_floats np_price_change_def split: if_splits)
  have 3: "Highest_Price ?s \<in> price_usd ` set rows"
    using Max_in[OF fin nonempty] by simp
  have 4: "\<forall>r\<in>set rows. price_usd r \<le> Highest_Price ?s"
    using fin by (simp add: Max_ge)
  have 5: "Lowest_Price ?s \<in> price_usd ` set rows"
    using Min_in[OF fin nonempty] by simp
  have 6: "\<forall>r\<in>set rows. Lowest_Price ?s \<le> price_usd r"
    using fin by (simp add: Min_le)
  have 7: "Average_Volume ?s * real (length rows) = sum_list (map volume_usd rows)"
    using ne by simp
  show "\<exists>s. crypto_stats c df = [s] \<and>
           Cryptocurrency s = capitalize c \<and>
           Current_Price s = price_usd (last rows) \<and>
           (\<forall>v. price_change (map (\<lambda>r. (timestamp r, SqlReal (price_usd r))) rows) = Inr v
                \<longrightarrow> Price_Change s = Finite v) \<and>
           Highest_Price s \<in> price_usd ` set rows \<and>
           (\<forall>r\<in>set rows. price_usd r \<le> Highest_Price s) \<and>
           Lowest_Price s \<in> price_usd ` set rows \<and>
           (\<forall>r\<in>set rows. Lowest_Price s \<le> price_usd r) \<and>
           Average_Volume s * real (length rows) = sum_list (map volume_usd rows)"
    using 1 2 3 4 5 6 7 by (intro exI[of _ ?s]) simp
qed

lemma capitalize_bitcoin: "capitalize ''bitcoin'' = ''Bitcoin''" by code_simp

theorem summary_statistics_witness:
  "\<exists>s. generate_summary_statistics scenario = [s] \<and> Cryptocurrency s = ''Bitcoin'' \<and>
       Current_Price s = 110 \<and> Price_Change s = Finite 10 \<and> Highest_Price s = 110 \<and>
       Lowest_Price s = 100 \<and> Average_Volume s = 8"
proof -
  have btc: "scenario = filter (\<lambda>r. cryptocurrency r = ''bitcoin'') scenario"
    and eth: "[] = filter (\<lambda>r. cryptocurrency r = ''ethereum'') scenario"
    by (simp_all add: scenario_def)
  have ne: "scenario \<noteq> []" by (simp add: scenario_def)
  have pc: "price_change (map (\<lambda>r. (timestamp r, SqlReal (price_usd r))) scenario) = Inr 10"
    by (simp add: scenario_def price_change_def index_def)
  from summary_statistics [OF eth]
  have all: "generate_summary_statistics scenario = crypto_stats ''bitcoin'' scenario"
    by simp
  from summary_statistics [OF btc] ne pc obtain s where
    s: "crypto_stats ''bitcoin'' scenario = [s]" "Cryptocurrency s = capitalize ''bitcoin''"
      "Current_Price s = price_usd (last scenario)" "Price_Change s = Finite 10"
      "Highest_Price s \<in> price_usd ` set scenario"
      "\<forall>r\<in>set scenario. price_usd r \<le> Highest_Price s"
      "Lowest_Price s \<in> price_usd ` set scenario"
      "\<forall>r\<in>set scenario. Lowest_Price s \<le> price_usd r"
      "Average_Volume s * real (length scenario) = sum_list (map volume_usd scenario)"
    by auto
  have "Cryptocurrency s = ''Bitcoin''"
    using s(2) by (simp only: capitalize_bitcoin)
  moreover have "Current_Price s = 110" using s(3) by (simp add: scenario_def)
  moreover have "Highest_Price s = 110" using s(5,6) by (auto simp: scenario_def)
  moreover have "Lowest_Price s = 100" using s(7,8) by (auto simp: scenario_def)
  moreover have "Average_Volume s = 8" using s(9) by (simp add: scenario_def)
  ultimately show ?thesis using all s(1,4) by simp
qed

text \<open>
  The two code sites differ when the first price is 0: \<^verbatim>\<open>query_data.py\<close> divides Python
  floats and raises, the summary divides \<^verbatim>\<open>numpy\<close> floats and reports a value that is not
  a finite number.
\<close>

lemma zero_first_price:
  fixes D :: "real sample list"
  assumes "D \<noteq> []" and "\<forall>r\<in>set D. cryptocurrency r = c" and "price_usd (hd D) = 0"
  shows "price_change (map (\<lambda>r. (timestamp r, SqlReal (price_usd r))) D) = Inl ZeroDivisionError"
    and "map Price_Change (crypto_stats c D) = [Non_finite]"
  using assms
  by (simp_all add: price_change_of_floats crypto_stats_single np_price_change_def)

text \<open>The report of \<^verbatim>\<open>query_crypto_history\<close> on the example table.\<close>

lemma query_crypto_history_table:
  "query_crypto_history T0 table =
     Inr [Price_history [(T0, 100), (T1, 110)] 10, Price_history [(T0, 20), (T1, 21)] 5]"
  by (simp add: query_crypto_history_def cryptos_def crypto_report_def history_def table_def
        T0_def T1_def price_change_def index_def)

subsection \<open>Range query\<close>

lemma mset_fetch_historical_data:
  "mset (fetch_historical_data since rows) =
     image_mset columns (filter_mset (\<lambda>r. since \<le> timestamp r) (mset rows))"
  by (simp add: fetch_historical_data_def)

lemma timestamp_columns: "timestamp (columns r) = timestamp r"
  by (simp add: columns_def)

lemma sorted_fetch_historical_data:
  "sorted (map timestamp (fetch_historical_data since rows))"
proof -
  have "map timestamp (fetch_historical_data since rows) =
        map timestamp (sort_key timestamp (filter (\<lambda>r. since \<le> timestamp r) rows))"
    by (simp add: fetch_historical_data_def timestamp_columns comp_def)
  then show ?thesis by simp
qed

text \<open>
  Claim C3. The range query returns exactly the rows of the table whose timestamp is
  at least the threshold, whatever their asset, each as many times as it is stored,
  in ascending order of timestamp; when every stored timestamp is below the threshold
  the result is empty.
\<close>

theorem range_query:
  "mset (fetch_historical_data since rows) =
     image_mset columns (filter_mset (\<lambda>r. since \<le> timestamp r) (mset rows)) \<and>
   sorted (map timestamp (fetch_historical_data since rows)) \<and>
   ((\<forall>r\<in>set rows. timestamp r < since) \<longrightarrow> fetch_historical_data since rows = [])"
proof (intro conjI impI)
  assume "\<forall>r\<in>set rows. timestamp r < since"
  then have "filter (\<lambda>r. since \<le> timestamp r) rows = []"
    by (auto simp: filter_empty_conv)
  then show "fetch_historical_data since rows = []"
    by (simp add: fetch_historical_data_def)
qed (rule mset_fetch_historical_data sorted_fetch_historical_data)+


theorem range_query_witness:
  "mset (fetch_historical_data T1 table) =
     {#\<lparr>cryptocurrency = ''bitcoin'', timestamp = T1, price_usd = SqlReal 110,
        market_cap_usd = SqlReal 2200, volume_usd = SqlReal 9\<rparr>,
       \<lparr>cryptocurrency = ''ethereum'', timestamp = T1, price_usd = SqlReal 21,
        market_cap_usd = SqlReal 310, volume_usd = SqlReal 5\<rparr>#} \<and>
   fetch_historical_data ''2024-01-01 12:01:01'' table = []"
proof -
  have late: "\<forall>r\<in>set table. timestamp r < ''2024-01-01 12:01:01''"
    by (simp add: table_def T0_def T1_def)
  from range_query [of T1 table] range_query [of "''2024-01-01 12:01:01''" table] late
  show ?thesis
    by (simp add: table_def T0_def T1_def columns_def)
qed

subsection \<open>From the table to the summary\<close>

text \<open>
  The frame that \<^verbatim>\<open>read_sql_query\<close> builds has the rows of the query result in their
  order, so the frame of a range query is ordered by time, and the last row of an asset
  in it is the latest one in the window.
\<close>

lemma float_sample_Some:
  assumes "float_sample s = Some f"
  shows "cryptocurrency f = cryptocurrency s \<and> timestamp f = timestamp s \<and>
         price_usd s = SqlReal (price_usd f) \<and> market_cap_usd s = SqlReal (market_cap_usd f) \<and>
         volume_usd s = SqlReal (volume_usd f)"
proof -
  from assms obtain p m v where "float_cell (price_usd s) = Some p"
    "float_cell (market_cap_usd s) = Some m" "float_cell (volume_usd s) = Some v"
    and f: "f = \<lparr>cryptocurrency = cryptocurrency s, timestamp = timestamp s, price_usd = p,
                market_cap_usd = m, volume_usd = v\<rparr>"
    by (auto simp: float_sample_def split: option.splits)
  then have "price_usd s = SqlReal p" "market_cap_usd s = SqlReal m" "volume_usd s = SqlReal v"
    by (auto elim: float_cell.elims)
  with f show ?thesis by simp
qed

lemma read_frame_Some:
  assumes "read_frame ss = Some fs"
  shows "map timestamp fs = map timestamp ss \<and> map cryptocurrency fs = map cryptocurrency ss \<and>
         map price_usd ss = map (\<lambda>f. SqlReal (price_usd f)) fs"
  using assms
proof (induction ss arbitrary: fs)
  case Nil
  then show ?case by simp
next
  case (Cons s ss)
  from Cons.prems obtain f fs' where "float_sample s = Some f" "read_frame ss = Some fs'"
    "fs = f # fs'"
    by (auto split: option.splits)
  with Cons.IH [of fs'] float_sample_Some [of s f] show ?case by simp
qed

lemma sorted_frame:
  assumes "read_frame (fetch_historical_data time_threshold rows) = Some df"
  shows "sorted (map timestamp df)"
  using read_frame_Some [OF assms] sorted_fetch_historical_data [of time_threshold rows]
  by simp

lemma capitalize_ethereum: "capitalize ''ethereum'' = ''Ethereum''"
  by code_simp

lemma summary_since_table:
  "summary_since T0 table =
     Some [\<lparr>Cryptocurrency = ''Bitcoin'', Current_Price = 110, Price_Change = Finite 10,
            Highest_Price = 110, Lowest_Price = 100, Average_Volume = 8\<rparr>,
           \<lparr>Cryptocurrency = ''Ethereum'', Current_Price = 21, Price_Change = Finite 5,
            Highest_Price = 21, Lowest_Price = 20, Average_Volume = 9 / 2\<rparr>]"
proof -
  have "read_frame (fetch_historical_data T0 table) =
     Some [\<lparr>cryptocurrency = ''bitcoin'', timestamp = T0, price_usd = 100,
            market_cap_usd = 2000, volume_usd = 7\<rparr>,
           \<lparr>cryptocurrency = ''ethereum'', timestamp = T0, price_usd = 20,
            market_cap_usd = 300, volume_usd = 4\<rparr>,
           \<lparr>cryptocurrency = ''bitcoin'', timestamp = T1, price_usd = 110,
            market_cap_usd = 2200, volume_usd = 9\<rparr>,
           \<lparr>cryptocurrency = ''ethereum'', timestamp = T1, price_usd = 21,
            market_cap_usd = 310, volume_usd = 5\<rparr>]"
    by (simp add: fetch_historical_data_def table_def T0_def T1_def columns_def float_sample_def)
  then show ?thesis
    unfolding summary_since_def
    by (simp add: generate_summary_statistics_def cryptos_def crypto_stats_def
          np_price_change_def capitalize_bitcoin capitalize_ethereum del: capitalize.simps)
qed

section \<open>Properties of the tracker\<close>

subsection \<open>Saving a fetched result\<close>

lemma execute_insert_Inr:
  assumes "execute_insert c u m v ts w = (Inr x, w')"
  shows "\<exists>p q r. adapt u = Inr p \<and> adapt m = Inr q \<and> adapt v = Inr r \<and>
           w' = w\<lparr>pending := pending w @ [new_row c p q r ts w]\<rparr>"
  using assms by (auto simp: execute_insert_def split: sum.splits)

lemma execute_insert_Inl:
  assumes "execute_insert c u m v ts w = (Inl e, w')"
  shows "w' = w"
  using assms by (auto simp: execute_insert_def split: sum.splits)

lemma insert_cryptos_Cons_Inr:
  assumes "insert_cryptos (c # cs) d ts w = (Inr x, w')"
  shows "\<exists>data u m v p q r.
           getitem d c = Inr data \<and> getitem data ''usd'' = Inr u \<and>
           getitem data ''usd_market_cap'' = Inr m \<and> getitem data ''usd_24h_vol'' = Inr v \<and>
           adapt u = Inr p \<and> adapt m = Inr q \<and> adapt v = Inr r \<and>
           insert_cryptos cs d ts (w\<lparr>pending := pending w @ [new_row c p q r ts w]\<rparr>) = (Inr x, w')"
  using assms
  by (auto split: sum.splits prod.splits dest!: execute_insert_Inr)

lemma insert_cryptos_Cons_Inl:
  assumes "insert_cryptos (c # cs) d ts w = (Inl e, w')"
  shows "w' = w \<or> (\<exists>p q r. 
           insert_cryptos cs d ts (w\<lparr>pending := pending w @ [new_row c p q r ts w]\<rparr>) = (Inl e, w'))"
  using assms
  by (auto split: sum.splits prod.splits dest!: execute_insert_Inr execute_insert_Inl)

lemma insert_cryptos_frame:
  assumes "insert_cryptos cs d ts w = (res, w')"
  shows "committed w' = committed w \<and> clock w' = clock w \<and> now_calls w' = now_calls w \<and>
         stdout w' = stdout w \<and>
         (\<exists>new. pending w' = pending w @ new \<and> (\<forall>r\<in>set new. timestamp r = ts) \<and>
            (case res of Inr _ \<Rightarrow> map cryptocurrency new = cs | Inl _ \<Rightarrow> length new < length cs))"
  using assms
proof (induction cs arbitrary: w)
  case Nil
  then show ?case by auto
next
  case (Cons c cs)
  show ?case
  proof (cases res)
    case (Inr x)
    with Cons.prems insert_cryptos_Cons_Inr obtain p q r where
      rest: "insert_cryptos cs d ts (w\<lparr>pending := pending w @ [new_row c p q r ts w]\<rparr>) = (res, w')"
      by blast
    from Cons.IH[OF rest] Inr show ?thesis
      by (auto simp: new_row_def)
  next
    case (Inl e)
    with Cons.prems insert_cryptos_Cons_Inl[of c cs d ts w e w'] consider
      "w' = w" | p q r where
      "insert_cryptos cs d ts (w\<lparr>pending := pending w @ [new_row c p q r ts w]\<rparr>) = (res, w')"
      by blast
    then show ?thesis
    proof cases
      case 1
      with Inl show ?thesis by simp
    next
      case 2
      from Cons.IH[OF 2] Inl show ?thesis
        by (auto simp: new_row_def)
    qed
  qed
qed

lemma save_to_database_falsy: "\<not> truthy d \<Longrightarrow> save_to_database d w = (Inr (), w)"
  by (simp add: save_to_database_def)

lemma save_to_database_truthy:
  assumes "truthy d"
    and "insert_cryptos cryptos d (strftime (clock w (now_calls w)))
           (w\<lparr>now_calls := Suc (now_calls w)\<rparr>) = (res, w2)"
  shows "save_to_database d w = (case res of Inl e \<Rightarrow> (Inl e, w2) | Inr _ \<Rightarrow> (Inr (), commit w2))"
  using assms by (simp add: save_to_database_def now_def split: sum.splits)

text \<open>
  Claim C9. A call of \<^verbatim>\<open>save_to_database\<close> on a truthy result that returns has read the
  clock exactly once, and has added to the table one row for bitcoin and one for
  ethereum, in this order, both with the text of that one reading as timestamp.
\<close>

theorem single_timestamp:
  assumes "save_to_database crypto_data w = (Inr (), w')" and "truthy crypto_data"
  shows "\<exists>new. committed w' = committed w @ pending w @ new \<and>
           map cryptocurrency new = [''bitcoin'', ''ethereum''] \<and>
           (\<forall>r\<in>set new. timestamp r = strftime (clock w (now_calls w))) \<and>
           now_calls w' = Suc (now_calls w)"
proof -
  obtain res w2 where ins:
    "insert_cryptos cryptos crypto_data (strftime (clock w (now_calls w)))
           (w\<lparr>now_calls := Suc (now_calls w)\<rparr>) = (res, w2)"
    by (cases "insert_cryptos cryptos crypto_data (strftime (clock w (now_calls w)))
           (w\<lparr>now_calls := Suc (now_calls w)\<rparr>)")
  from save_to_database_truthy[OF assms(2) ins] assms(1)
  have res: "res = Inr ()" and w': "w' = commit w2"
    by (auto split: sum.splits)
  from insert_cryptos_frame[OF ins] res obtain new where
    "committed w2 = committed w" "now_calls w2 = Suc (now_calls w)"
    "pending w2 = pending w @ new" "\<forall>r\<in>set new. timestamp r = strftime (clock w (now_calls w))"
    "map cryptocurrency new = cryptos"
    by auto
  with w' show ?thesis
    by (intro exI[of _ new]) (simp add: commit_def cryptos_def)
qed


lemma strftime_noon: "strftime (noon\<lparr>microsecond := n\<rparr>) = ''2024-01-01 12:00:00''"
  by (simp add: strftime_def noon_def pad2_def pad4_def digit_def)

lemma save_payload:
  "save_to_database payload tracker0 =
     (Inr (), tracker0\<lparr>committed :=
        [\<lparr>cryptocurrency = ''bitcoin'', timestamp = ''2024-01-01 12:00:00'', price_usd = SqlReal 100,
          market_cap_usd = SqlReal 2000, volume_usd = SqlReal 7, row_id = 1\<rparr>,
         \<lparr>cryptocurrency = ''ethereum'', timestamp = ''2024-01-01 12:00:00'', price_usd = SqlReal 20,
          market_cap_usd = SqlReal 300, volume_usd = SqlReal 4, row_id = 2\<rparr>],
        now_calls := 1\<rparr>)"
  by (simp add: save_to_database_def payload_def quote_def tracker0_def now_def cryptos_def
      execute_insert_def new_row_def commit_def strftime_noon)

theorem single_timestamp_witness:
  "map timestamp (committed (snd (save_to_database payload tracker0))) =
     [''2024-01-01 12:00:00'', ''2024-01-01 12:00:00''] \<and>
   now_calls (snd (save_to_database payload tracker0)) = 1"
proof -
  have ok: "save_to_database payload tracker0 = (Inr (), snd (save_to_database payload tracker0))"
    by (simp add: save_payload)
  have t: "truthy payload" by (simp add: payload_def)
  have ts: "strftime (clock tracker0 (now_calls tracker0)) = ''2024-01-01 12:00:00''"
    by (simp add: tracker0_def strftime_noon)
  from single_timestamp [OF ok t] obtain new where n:
    "committed (snd (save_to_database payload tracker0)) = committed tracker0 @ pending tracker0 @ new \<and>
     map cryptocurrency new = [''bitcoin'', ''ethereum''] \<and>
     (\<forall>r\<in>set new. timestamp r = strftime (clock tracker0 (now_calls tracker0))) \<and>
     now_calls (snd (save_to_database payload tracker0)) = Suc (now_calls tracker0)" ..
  then obtain a b where "new = [a, b]" by auto
  with n show ?thesis
    unfolding ts by (simp add: tracker0_def)
qed


lemma storable_iff:
  "storable data \<longleftrightarrow>
     (\<exists>u m v. getitem data ''usd'' = Inr u \<and> getitem data ''usd_market_cap'' = Inr m \<and>
        getitem data ''usd_24h_vol'' = Inr v \<and>
        bindable_number u \<and> bindable_number m \<and> bindable_number v)"
  by (auto simp: storable_def split: sum.splits)


lemma insert_cryptos_step:
  assumes "getitem d c = Inr data" "getitem data ''usd'' = Inr u"
    "getitem data ''usd_market_cap'' = Inr m" "getitem data ''usd_24h_vol'' = Inr v"
    "adapt u = Inr p" "adapt m = Inr q" "adapt v = Inr r"
  shows "insert_cryptos (c # cs) d ts w =
           insert_cryptos cs d ts (w\<lparr>pending := pending w @ [new_row c p q r ts w]\<rparr>)"
  using assms by (simp add: execute_insert_def)





subsection \<open>Round trip through the table\<close>

text \<open>The text of a timestamp determines the reading of the clock up to the microseconds.\<close>

lemma digit_inject:
  assumes "digit a = digit b" "a < 10" "b < 10"
  shows "a = b"
proof -
  have d: "distinct ''0123456789''" by simp
  from assms have "''0123456789'' ! a = ''0123456789'' ! b" by (simp add: digit_def)
  with d assms(2,3) show ?thesis by (simp add: nth_eq_iff_index_eq)
qed

lemma digit_eq_mod:
  assumes "digit a = digit b"
  shows "a mod 10 = b mod 10"
proof -
  have "digit (a mod 10) = digit (b mod 10)" using assms by (simp add: digit_def)
  then show ?thesis by (rule digit_inject) simp_all
qed

lemma decimal_step:
  fixes x y :: nat
  assumes "x div 10 = y div 10" "digit x = digit y"
  shows "x = y"
  using assms digit_eq_mod [of x y] by (metis div_mult_mod_eq)

lemma pad2_inject:
  assumes "pad2 a = pad2 b" "a < 100" "b < 100"
  shows "a = b"
proof -
  from assms(1) have hi: "digit (a div 10) = digit (b div 10)" and lo: "digit a = digit b"
    by (simp_all add: pad2_def)
  from assms(2,3) have "a div 10 < 10" "b div 10 < 10" by simp_all
  with hi have "a div 10 = b div 10" by (rule digit_inject)
  then show ?thesis using lo by (rule decimal_step)
qed

lemma pad4_inject:
  assumes "pad4 a = pad4 b" "a < 10000" "b < 10000"
  shows "a = b"
proof -
  from assms(1) have d3: "digit (a div 1000) = digit (b div 1000)"
    and d2: "digit (a div 100) = digit (b div 100)"
    and d1: "digit (a div 10) = digit (b div 10)" and d0: "digit a = digit b"
    by (simp_all add: pad4_def)
  from assms(2,3) have "a div 1000 < 10" "b div 1000 < 10" by simp_all
  with d3 have "a div 1000 = b div 1000" by (rule digit_inject)
  then have "a div 100 div 10 = b div 100 div 10" by (simp add: div_mult2_eq [symmetric])
  then have "a div 100 = b div 100" using d2 by (rule decimal_step)
  then have "a div 10 div 10 = b div 10 div 10" by (simp add: div_mult2_eq [symmetric])
  then have "a div 10 = b div 10" using d1 by (rule decimal_step)
  then show ?thesis using d0 by (rule decimal_step)
qed

lemma strftime_inject:
  assumes "strftime a = strftime b" "valid_datetime a" "valid_datetime b"
  shows "a\<lparr>microsecond := microsecond b\<rparr> = b"
proof -
  from assms(1) have eq: "pad4 (year a) = pad4 (year b)" "pad2 (month a) = pad2 (month b)"
    "pad2 (day a) = pad2 (day b)" "pad2 (hour a) = pad2 (hour b)"
    "pad2 (minute a) = pad2 (minute b)" "pad2 (second a) = pad2 (second b)"
    by (simp_all add: strftime_def pad2_def pad4_def)
  from assms(2,3) have b: "year a < 10000" "year b < 10000" "month a < 100" "month b < 100"
    "day a < 100" "day b < 100" "hour a < 100" "hour b < 100" "minute a < 100" "minute b < 100"
    "second a < 100" "second b < 100"
    by (simp_all add: valid_datetime_def)
  have "year a = year b" using eq(1) b(1,2) by (rule pad4_inject)
  moreover have "month a = month b" using eq(2) b(3,4) by (rule pad2_inject)
  moreover have "day a = day b" using eq(3) b(5,6) by (rule pad2_inject)
  moreover have "hour a = hour b" using eq(4) b(7,8) by (rule pad2_inject)
  moreover have "minute a = minute b" using eq(5) b(9,10) by (rule pad2_inject)
  moreover have "second a = second b" using eq(6) b(11,12) by (rule pad2_inject)
  ultimately show ?thesis by simp
qed


lemma save_to_database_both:
  assumes "getitem d ''bitcoin'' = Inr b" "getitem b ''usd'' = Inr ub"
    "getitem b ''usd_market_cap'' = Inr mb" "getitem b ''usd_24h_vol'' = Inr vb"
    "adapt ub = Inr pb" "adapt mb = Inr qb" "adapt vb = Inr rb"
    and "getitem d ''ethereum'' = Inr e" "getitem e ''usd'' = Inr ue"
    "getitem e ''usd_market_cap'' = Inr me" "getitem e ''usd_24h_vol'' = Inr ve"
    "adapt ue = Inr pe" "adapt me = Inr qe" "adapt ve = Inr re"
  shows "save_to_database d w =
           (Inr (), w\<lparr>committed := committed w @ pending w @
                      [\<lparr>cryptocurrency = ''bitcoin'', timestamp = strftime (clock w (now_calls w)),
                        price_usd = pb, market_cap_usd = qb, volume_usd = rb,
                        row_id = Suc (length (committed w) + length (pending w))\<rparr>,
                       \<lparr>cryptocurrency = ''ethereum'', timestamp = strftime (clock w (now_calls w)),
                        price_usd = pe, market_cap_usd = qe, volume_usd = re,
                        row_id = Suc (Suc (length (committed w) + length (pending w)))\<rparr>],
                    pending := [], now_calls := Suc (now_calls w)\<rparr>)"
proof -
  from assms(1) have t: "truthy d" by (cases d) (auto split: option.splits)
  let ?ts = "strftime (clock w (now_calls w))"
  let ?w1 = "w\<lparr>now_calls := Suc (now_calls w)\<rparr>"
  let ?w2 = "?w1\<lparr>pending := pending ?w1 @ [new_row ''bitcoin'' pb qb rb ?ts ?w1]\<rparr>"
  let ?w3 = "?w2\<lparr>pending := pending ?w2 @ [new_row ''ethereum'' pe qe re ?ts ?w2]\<rparr>"
  have "insert_cryptos cryptos d ?ts ?w1 = (Inr (), ?w3)"
    unfolding cryptos_def
    by (simp only: insert_cryptos_step [OF assms(1-7)] insert_cryptos_step [OF assms(8-14)]
          insert_cryptos.simps(1))
  from save_to_database_truthy [OF t this]
  show ?thesis by (simp add: commit_def new_row_def)
qed

text \<open>
  How integers of the fetched data reach the table. An integer of magnitude at most
  \<open>2 ^ 53\<close> is stored as it is, so every sample value is stored unchanged. The
  integer \<open>2 ^ 53 + 1\<close> is stored as \<open>2 ^ 53\<close>. The integer \<open>2 ^ 63\<close> cannot be
  bound: the call raises \<^verbatim>\<open>OverflowError\<close> and inserts nothing.
\<close>

lemma bit_length_le: "m < 2 ^ n \<Longrightarrow> bit_length m \<le> n"
proof (induction n arbitrary: m)
  case 0
  then show ?case by (simp add: bit_length.simps)
next
  case (Suc n)
  from Suc.prems have "m div 2 < 2 ^ n" by simp
  then have "bit_length (m div 2) \<le> n" by (rule Suc.IH)
  then show ?case by (subst bit_length.simps) simp
qed

lemma bit_length_double: "0 < m \<Longrightarrow> bit_length (2 * m) = Suc (bit_length m)"
  by (subst bit_length.simps) simp

lemma bit_length_double_Suc: "bit_length (Suc (2 * m)) = Suc (bit_length m)"
  by (subst bit_length.simps) simp

lemma bit_length_power: "bit_length (2 ^ n) = Suc n"
proof (induction n)
  case 0
  have "bit_length (Suc (2 * 0)) = Suc (bit_length 0)" by (rule bit_length_double_Suc)
  then show ?case by (simp add: bit_length.simps [of 0])
next
  case (Suc n)
  then show ?case by (simp add: bit_length_double)
qed

lemma bit_length_power_Suc: "bit_length (Suc (2 ^ Suc n)) = Suc (Suc n)"
proof -
  have "bit_length (Suc (2 * 2 ^ n)) = Suc (bit_length (2 ^ n))" by (rule bit_length_double_Suc)
  then show ?thesis by (simp add: bit_length_power)
qed

lemma round53_small: "m < 2 ^ 53 \<Longrightarrow> round53 m = m"
proof -
  assume "m < 2 ^ 53"
  then have "bit_length m - 53 = 0" using bit_length_le [of m 53] by simp
  then show ?thesis by (simp add: round53_def)
qed

lemma round53_power: "round53 (2 ^ n) = 2 ^ n"
proof -
  define k where "k = bit_length (2 ^ n :: nat) - 53"
  have "k \<le> n" by (simp add: k_def bit_length_power)
  then have dvd: "(2::nat) ^ k dvd 2 ^ n" by (rule le_imp_power_dvd)
  then have r: "(2::nat) ^ n mod 2 ^ k = 0" by simp
  from dvd have q: "(2::nat) ^ n div 2 ^ k * 2 ^ k = 2 ^ n" by simp
  have "round53 (2 ^ n) =
          (if 2 ^ k < 2 * ((2::nat) ^ n mod 2 ^ k) \<or>
              (2 * ((2::nat) ^ n mod 2 ^ k) = 2 ^ k \<and> odd ((2::nat) ^ n div 2 ^ k))
           then Suc (2 ^ n div 2 ^ k) else 2 ^ n div 2 ^ k) * 2 ^ k"
    by (simp only: round53_def Let_def k_def)
  also have "\<dots> = 2 ^ n div 2 ^ k * 2 ^ k" unfolding r by simp
  finally show ?thesis using q by simp
qed

lemma round53_tie: "round53 (Suc (2 ^ 53)) = 2 ^ 53"
proof -
  have "bit_length (Suc (2 ^ Suc 52)) = Suc (Suc 52)" by (rule bit_length_power_Suc)
  then have k: "bit_length (Suc (2 ^ 53)) - 53 = 1" by simp
  have q: "Suc (2 ^ 53) div 2 ^ 1 = (2::nat) ^ 52" and r: "Suc (2 ^ 53) mod 2 ^ 1 = (1::nat)"
    by simp_all
  have "round53 (Suc (2 ^ 53)) =
          (if 2 ^ 1 < 2 * (1::nat) \<or> (2 * (1::nat) = 2 ^ 1 \<and> odd ((2::nat) ^ 52))
           then Suc (2 ^ 52) else 2 ^ 52) * 2 ^ 1"
    by (simp only: round53_def Let_def k q r)
  also have "\<dots> = 2 ^ 53" by simp
  finally show ?thesis .
qed

lemma double_of_int_exact:
  assumes "\<bar>i\<bar> \<le> 2 ^ 53"
  shows "double_of_int i = real_of_int i"
proof -
  have sg: "real_of_int (sgn i) * real (nat \<bar>i\<bar>) = real_of_int i"
    by (simp add: sgn_if)
  have "round53 (nat \<bar>i\<bar>) = nat \<bar>i\<bar>"
  proof (cases "nat \<bar>i\<bar> < 2 ^ 53")
    case True
    then show ?thesis by (rule round53_small)
  next
    case False
    with assms have "nat \<bar>i\<bar> = 2 ^ 53" by simp
    then show ?thesis by (simp only: round53_power)
  qed
  with sg show ?thesis by (simp add: double_of_int_def)
qed

lemma double_of_int_rounds: "double_of_int (2 ^ 53 + 1) = 2 ^ 53"
proof -
  have "nat \<bar>2 ^ 53 + 1 :: int\<bar> = Suc (2 ^ 53)" by simp
  then have "double_of_int (2 ^ 53 + 1) = real (round53 (Suc (2 ^ 53)))"
    by (simp only: double_of_int_def) simp
  then show ?thesis by (simp only: round53_tie) simp
qed

lemma adapt_sample_value:
  assumes "sample_value u = Some x"
  shows "adapt u = Inr (SqlReal x)"
proof (cases u)
  case (JInt i)
  with assms have b: "\<bar>i\<bar> \<le> 2 ^ 53" and x: "x = real_of_int i"
    by (auto split: if_splits)
  from b have "i \<le> 2 ^ 53" and "- (2 ^ 53) \<le> i" by (simp_all add: abs_le_iff)
  moreover have "(2::int) ^ 53 < 2 ^ 63" by simp
  ultimately have "- (2 ^ 63) \<le> i \<and> i < 2 ^ 63" by linarith
  with JInt x double_of_int_exact [OF b] show ?thesis by simp
qed (use assms in auto)

lemma bindable_sample_value:
  assumes "sample_value j = Some r"
  shows "bindable_number j"
proof (cases j)
  case (JInt i)
  with assms have "\<bar>i\<bar> \<le> 2 ^ 53" by (simp split: if_splits)
  then have "i \<le> 2 ^ 53" and "- (2 ^ 53) \<le> i" by (simp_all add: abs_le_iff)
  moreover have "(2::int) ^ 53 < 2 ^ 63" by simp
  ultimately have "- (2 ^ 63) \<le> i \<and> i < 2 ^ 63" by linarith
  with JInt show ?thesis by simp
qed (use assms in auto)

lemma storable_samples:
  assumes "getitem data ''usd'' = Inr u" and "getitem data ''usd_market_cap'' = Inr c"
    and "getitem data ''usd_24h_vol'' = Inr l"
    and "sample_value u = Some x" and "sample_value c = Some y" and "sample_value l = Some z"
  shows "storable data"
  unfolding storable_iff
  using assms(1-3) assms(4-6) [THEN bindable_sample_value] by (intro exI conjI)

lemma adapt_rounds: "adapt (JInt (2 ^ 53 + 1)) = Inr (SqlReal (2 ^ 53))"
proof -
  have "- (2 ^ 63) \<le> (2 ^ 53 + 1 :: int) \<and> (2 ^ 53 + 1 :: int) < 2 ^ 63" by simp
  then have "adapt (JInt (2 ^ 53 + 1)) = Inr (SqlReal (double_of_int (2 ^ 53 + 1)))"
    by (simp only: adapt.simps simp_thms if_True)
  then show ?thesis by (simp only: double_of_int_rounds)
qed

lemma adapt_overflow: "adapt (JInt (2 ^ 63)) = Inl OverflowError"
  by simp

lemma save_oversized:
  "save_to_database oversized tracker0 = (Inl OverflowError, tracker0\<lparr>now_calls := 1\<rparr>)"
  by (simp add: save_to_database_def oversized_def tracker0_def now_def cryptos_def
        execute_insert_def)

text \<open>
  Claim C7. When the fetched result has, for each of the two assets, an entry whose
  price, market cap and volume are sample values (floats, or integers that a float
  holds exactly), \<^verbatim>\<open>save_to_database\<close> returns, and a range query on the committed
  table with a threshold not above the timestamp of the call returns, for each asset, a
  row with that asset and with these very numbers as price, market cap and volume. The
  timestamp of the row is the text of the clock reading; any valid reading with the
  same text differs from it in the microseconds only.
\<close>

theorem round_trip:
  assumes "getitem crypto_data ''bitcoin'' = Inr b" and "getitem b ''usd'' = Inr ub"
    and "getitem b ''usd_market_cap'' = Inr cb" and "getitem b ''usd_24h_vol'' = Inr lb"
    and "sample_value ub = Some pb" and "sample_value cb = Some mb"
    and "sample_value lb = Some vb"
    and "getitem crypto_data ''ethereum'' = Inr e" and "getitem e ''usd'' = Inr ue"
    and "getitem e ''usd_market_cap'' = Inr ce" and "getitem e ''usd_24h_vol'' = Inr le"
    and "sample_value ue = Some pe" and "sample_value ce = Some me"
    and "sample_value le = Some ve"
    and "since \<le> strftime (clock w (now_calls w))"
  shows "fst (save_to_database crypto_data w) = Inr () \<and>
         \<lparr>cryptocurrency = ''bitcoin'', timestamp = strftime (clock w (now_calls w)),
          price_usd = SqlReal pb, market_cap_usd = SqlReal mb, volume_usd = SqlReal vb\<rparr>
           \<in> set (fetch_historical_data since (committed (snd (save_to_database crypto_data w)))) \<and>
         \<lparr>cryptocurrency = ''ethereum'', timestamp = strftime (clock w (now_calls w)),
          price_usd = SqlReal pe, market_cap_usd = SqlReal me, volume_usd = SqlReal ve\<rparr>
           \<in> set (fetch_historical_data since (committed (snd (save_to_database crypto_data w)))) \<and>
         (\<forall>dt. valid_datetime dt \<and> valid_datetime (clock w (now_calls w)) \<and>
               strftime dt = strftime (clock w (now_calls w)) \<longrightarrow>
               dt\<lparr>microsecond := microsecond (clock w (now_calls w))\<rparr> = clock w (now_calls w))"
proof -
  have set_fhd: "set (fetch_historical_data since rows) =
                 columns ` {r \<in> set rows. since \<le> timestamp r}" for rows
    by (simp add: fetch_historical_data_def)
  have saved: "save_to_database crypto_data w =
           (Inr (), w\<lparr>committed := committed w @ pending w @
                      [\<lparr>cryptocurrency = ''bitcoin'', timestamp = strftime (clock w (now_calls w)),
                        price_usd = SqlReal pb, market_cap_usd = SqlReal mb, volume_usd = SqlReal vb,
                        row_id = Suc (length (committed w) + length (pending w))\<rparr>,
                       \<lparr>cryptocurrency = ''ethereum'', timestamp = strftime (clock w (now_calls w)),
                        price_usd = SqlReal pe, market_cap_usd = SqlReal me, volume_usd = SqlReal ve,
                        row_id = Suc (Suc (length (committed w) + length (pending w)))\<rparr>],
                    pending := [], now_calls := Suc (now_calls w)\<rparr>)"
    by (rule save_to_database_both [OF assms(1-4) assms(5-7) [THEN adapt_sample_value]
          assms(8-11) assms(12-14) [THEN adapt_sample_value]])
  have 1: "fst (save_to_database crypto_data w) = Inr ()" by (simp add: saved)
  have 2: "\<lparr>cryptocurrency = ''bitcoin'', timestamp = strftime (clock w (now_calls w)),
          price_usd = SqlReal pb, market_cap_usd = SqlReal mb, volume_usd = SqlReal vb\<rparr>
           \<in> set (fetch_historical_data since (committed (snd (save_to_database crypto_data w))))"
    unfolding set_fhd saved using assms(15)
    by (intro image_eqI [where x = "\<lparr>cryptocurrency = ''bitcoin'',
          timestamp = strftime (clock w (now_calls w)), price_usd = SqlReal pb,
          market_cap_usd = SqlReal mb, volume_usd = SqlReal vb,
          row_id = Suc (length (committed w) + length (pending w))\<rparr>"])
       (simp_all add: columns_def)
  have 3: "\<lparr>cryptocurrency = ''ethereum'', timestamp = strftime (clock w (now_calls w)),
          price_usd = SqlReal pe, market_cap_usd = SqlReal me, volume_usd = SqlReal ve\<rparr>
           \<in> set (fetch_historical_data since (committed (snd (save_to_database crypto_data w))))"
    unfolding set_fhd saved using assms(15)
    by (intro image_eqI [where x = "\<lparr>cryptocurrency = ''ethereum'',
          timestamp = strftime (clock w (now_calls w)), price_usd = SqlReal pe,
          market_cap_usd = SqlReal me, volume_usd = SqlReal ve,
          row_id = Suc (Suc (length (committed w) + length (pending w)))\<rparr>"])
       (simp_all add: columns_def)
  have 4: "\<forall>dt. valid_datetime dt \<and> valid_datetime (clock w (now_calls w)) \<and>
               strftime dt = strftime (clock w (now_calls w)) \<longrightarrow>
               dt\<lparr>microsecond := microsecond (clock w (now_calls w))\<rparr> = clock w (now_calls w)"
    by (auto intro: strftime_inject)
  from 1 2 3 4 show ?thesis by blast
qed

theorem round_trip_witness:
  "fst (save_to_database integer_payload tracker0) = Inr () \<and>
   \<lparr>cryptocurrency = ''bitcoin'', timestamp = ''2024-01-01 12:00:00'',
    price_usd = SqlReal 97000, market_cap_usd = SqlReal 1900000000000, volume_usd = SqlReal 7\<rparr>
     \<in> set (fetch_historical_data ''2024-01-01 00:00:00''
              (committed (snd (save_to_database integer_payload tracker0)))) \<and>
   \<lparr>cryptocurrency = ''ethereum'', timestamp = ''2024-01-01 12:00:00'',
    price_usd = SqlReal 20, market_cap_usd = SqlReal 300, volume_usd = SqlReal 4\<rparr>
     \<in> set (fetch_historical_data ''2024-01-01 00:00:00''
              (committed (snd (save_to_database integer_payload tracker0))))"
proof -
  have ts: "strftime (clock tracker0 (now_calls tracker0)) = ''2024-01-01 12:00:00''"
    by (simp add: tracker0_def strftime_noon)
  have "getitem integer_payload ''bitcoin'' =
          Inr (JObj [(''usd'', JInt 97000), (''usd_market_cap'', JInt 1900000000000),
                     (''usd_24h_vol'', JFloat 7)])"
    and "getitem (JObj [(''usd'', JInt 97000), (''usd_market_cap'', JInt 1900000000000),
                     (''usd_24h_vol'', JFloat 7)]) ''usd'' = Inr (JInt 97000)"
    and "getitem (JObj [(''usd'', JInt 97000), (''usd_market_cap'', JInt 1900000000000),
                     (''usd_24h_vol'', JFloat 7)]) ''usd_market_cap'' = Inr (JInt 1900000000000)"
    and "getitem (JObj [(''usd'', JInt 97000), (''usd_market_cap'', JInt 1900000000000),
                     (''usd_24h_vol'', JFloat 7)]) ''usd_24h_vol'' = Inr (JFloat 7)"
    and "sample_value (JInt 97000) = Some 97000"
    and "sample_value (JInt 1900000000000) = Some 1900000000000"
    and "sample_value (JFloat 7) = Some 7"
    and "getitem integer_payload ''ethereum'' = Inr (quote 20 300 4)"
    and "getitem (quote 20 300 4) ''usd'' = Inr (JFloat 20)"
    and "getitem (quote 20 300 4) ''usd_market_cap'' = Inr (JFloat 300)"
    and "getitem (quote 20 300 4) ''usd_24h_vol'' = Inr (JFloat 4)"
    and "sample_value (JFloat 20) = Some 20"
    and "sample_value (JFloat 300) = Some 300"
    and "sample_value (JFloat 4) = Some 4"
    and "''2024-01-01 00:00:00'' \<le> strftime (clock tracker0 (now_calls tracker0))"
    unfolding ts by (simp_all add: integer_payload_def quote_def)
  from round_trip [OF this] show ?thesis
    unfolding ts by blast
qed

subsection \<open>Fetching\<close>

lemma fetch_crypto_data_frame:
  assumes "fetch_crypto_data got w = (res, w')"
  shows "committed w' = committed w \<and> pending w' = pending w \<and> clock w' = clock w \<and>
         now_calls w' = now_calls w"
  using assms
  by (auto simp: fetch_crypto_data_def print_def Let_def split: sum.splits if_splits)

text \<open>
  Claim C8, as the code has it. When the request raises an exception of the
  \<^verbatim>\<open>RequestException\<close> family, or the response has a status from 400 to 599,
  \<^verbatim>\<open>fetch_crypto_data\<close> prints one line with the error, returns \<^verbatim>\<open>None\<close> and raises
  nothing. A response with any other status is not a failure to it: when its body
  decodes, the decoded value is returned and nothing is printed.
\<close>

theorem fetch_failure:
  "((case got of Inl e \<Rightarrow> is_RequestException e
     | Inr r \<Rightarrow> 400 \<le> status_code r \<and> status_code r < 600) \<longrightarrow>
    (\<exists>e. is_RequestException e \<and>
         fetch_crypto_data got w = (Inr JNull, print (Error_fetching_data e) w) \<and>
         \<not> truthy JNull)) \<and>
   (\<forall>r v. got = Inr r \<and> \<not> (400 \<le> status_code r \<and> status_code r < 600) \<and>
          json_result r = Inr v \<longrightarrow>
      fetch_crypto_data got w = (Inr v, w))"
proof (intro conjI impI allI)
  assume f: "case got of Inl e \<Rightarrow> is_RequestException e
             | Inr r \<Rightarrow> 400 \<le> status_code r \<and> status_code r < 600"
  show "\<exists>e. is_RequestException e \<and>
         fetch_crypto_data got w = (Inr JNull, print (Error_fetching_data e) w) \<and>
         \<not> truthy JNull"
  proof (cases got)
    case (Inl e)
    with f show ?thesis
      by (intro exI [of _ e]) (simp add: fetch_crypto_data_def)
  next
    case (Inr r)
    with f show ?thesis
      by (intro exI [of _ "HTTPError (status_code r)"])
         (simp add: fetch_crypto_data_def raise_for_status_def)
  qed
next
  fix r v
  assume "got = Inr r \<and> \<not> (400 \<le> status_code r \<and> status_code r < 600) \<and>
          json_result r = Inr v"
  then show "fetch_crypto_data got w = (Inr v, w)"
    by (auto simp: fetch_crypto_data_def raise_for_status_def)
qed

theorem fetch_failure_witness:
  "fetch_crypto_data (Inl (RequestException ''connection refused'')) tracker0 =
     (Inr JNull, print (Error_fetching_data (RequestException ''connection refused'')) tracker0) \<and>
   fetch_crypto_data (Inr \<lparr>status_code = 503, json_result = Inr error_body\<rparr>) tracker0 =
     (Inr JNull, print (Error_fetching_data (HTTPError 503)) tracker0) \<and>
   fetch_crypto_data (Inr \<lparr>status_code = 200, json_result = Inr payload\<rparr>) tracker0 =
     (Inr payload, tracker0)"
proof -
  have a: "case Inl (RequestException ''connection refused'') :: exc + response of
             Inl e \<Rightarrow> is_RequestException e
           | Inr r \<Rightarrow> 400 \<le> status_code r \<and> status_code r < 600"
    and b: "case Inr \<lparr>status_code = 503, json_result = Inr error_body\<rparr> :: exc + response of
             Inl e \<Rightarrow> is_RequestException e
           | Inr r \<Rightarrow> 400 \<le> status_code r \<and> status_code r < 600"
    by simp_all
  from fetch_failure [of "Inl (RequestException ''connection refused'')" tracker0] a
  obtain e where "is_RequestException e"
    "fetch_crypto_data (Inl (RequestException ''connection refused'')) tracker0 =
       (Inr JNull, print (Error_fetching_data e) tracker0)"
    by blast
  moreover from fetch_failure [of "Inr \<lparr>status_code = 503, json_result = Inr error_body\<rparr>" tracker0] b
  obtain e' where "is_RequestException e'"
    "fetch_crypto_data (Inr \<lparr>status_code = 503, json_result = Inr error_body\<rparr>) tracker0 =
       (Inr JNull, print (Error_fetching_data e') tracker0)"
    by blast
  moreover from fetch_failure [of "Inr \<lparr>status_code = 200, json_result = Inr payload\<rparr>" tracker0]
  have "fetch_crypto_data (Inr \<lparr>status_code = 200, json_result = Inr payload\<rparr>) tracker0 =
          (Inr payload, tracker0)"
    by simp
  ultimately show ?thesis
    by (auto simp: fetch_crypto_data_def raise_for_status_def)
qed

text \<open>
  Claim C8 as stated speaks of every status outside 200 to 299. A response with status
  300 is outside that range, yet \<^verbatim>\<open>raise_for_status\<close> lets it pass: the body is decoded
  and returned, and nothing is printed.
\<close>

theorem fetch_non_2xx_counterexample:
  "fetch_crypto_data (Inr \<lparr>status_code = 300, json_result = Inr payload\<rparr>) tracker0 =
     (Inr payload, tracker0) \<and> truthy payload"
  by (simp add: fetch_crypto_data_def raise_for_status_def payload_def)

subsection \<open>A pass of the loop after a failed fetch\<close>

lemma iteration_falsy:
  assumes "fetch_crypto_data got w = (Inr v, w1)" and "\<not> truthy v"
  shows "iteration (got, ev) w = sleep ev w1"
  using assms by (simp add: iteration_def sleep_def split: sleep_outcome.splits)

lemma sleep_cases:
  "sleep ev w = (Inr (), w) \<or> sleep ev w = (Inl KeyboardInterrupt, w)"
  by (cases ev) (simp_all add: sleep_def)

text \<open>
  Claim C4. When the fetch of a pass returns a falsy result, \<^verbatim>\<open>save_to_database\<close> on it
  changes nothing, the pass leaves the committed and the pending rows as they were,
  its only possible exception is the \<^verbatim>\<open>KeyboardInterrupt\<close> of the sleep, and \<^verbatim>\<open>run\<close>
  over that pass raises nothing to its caller.
\<close>

theorem failed_fetch_iteration:
  assumes "fetch_crypto_data got w = (Inr v, w1)" and "\<not> truthy v"
  shows "save_to_database v w1 = (Inr (), w1) \<and>
         (fst (iteration (got, ev) w) = Inr () \<or>
          fst (iteration (got, ev) w) = Inl KeyboardInterrupt) \<and>
         committed (snd (iteration (got, ev) w)) = committed w \<and>
         pending (snd (iteration (got, ev) w)) = pending w \<and>
         (\<exists>r. fst (run [(got, ev)] w) = Inr r) \<and>
         committed (snd (run [(got, ev)] w)) = committed w"
proof -
  let ?w0 = "print (Text ''Press Ctrl+C to stop'')
               (print (Text ''Starting cryptocurrency price tracker...'') w)"
  from fetch_crypto_data_frame [OF assms(1)]
  have fr: "committed w1 = committed w" "pending w1 = pending w" by simp_all
  have it: "iteration (got, ev) w = sleep ev w1"
    using assms by (rule iteration_falsy)
  obtain v' w1' where f': "fetch_crypto_data got ?w0 = (Inr v', w1')" and "\<not> truthy v'"
    using assms
    by (auto simp: fetch_crypto_data_def Let_def split: sum.splits if_splits)
  from fetch_crypto_data_frame [OF f']
  have fr': "committed w1' = committed w" by (simp add: print_def)
  have it': "iteration (got, ev) ?w0 = sleep ev w1'"
    using f' \<open>\<not> truthy v'\<close> by (rule iteration_falsy)
  have lp: "loop [(got, ev)] ?w0 = sleep ev w1'"
    using sleep_cases [of ev w1'] by (auto simp: it')
  have "run [(got, ev)] w =
          (case sleep ev w1' of
             (Inr _, w') \<Rightarrow> (Inr Still_running, w')
           | (Inl e, w') \<Rightarrow>
               if e = KeyboardInterrupt
               then (Inr Stopped, close (print (Text ''Stopping price tracker...'') w'))
               else (Inl e, close w'))"
    unfolding run_def lp ..
  then have run: "(\<exists>r. fst (run [(got, ev)] w) = Inr r) \<and>
             committed (snd (run [(got, ev)] w)) = committed w"
    using sleep_cases [of ev w1'] fr'
    by (auto simp: close_def print_def)
  from sleep_cases [of ev w1] it fr run show ?thesis
    by (auto simp: save_to_database_falsy [OF assms(2)])
qed


theorem failed_fetch_iteration_witness:
  "committed (snd (iteration (Inl (RequestException ''timed out''), Elapsed)
                    (tracker0\<lparr>committed := table\<rparr>))) = table \<and>
   (\<exists>r. fst (run [(Inl (RequestException ''timed out''), Elapsed)]
                 (tracker0\<lparr>committed := table\<rparr>)) = Inr r)"
proof -
  have f: "fetch_crypto_data (Inl (RequestException ''timed out'')) (tracker0\<lparr>committed := table\<rparr>) =
             (Inr JNull, print (Error_fetching_data (RequestException ''timed out''))
                           (tracker0\<lparr>committed := table\<rparr>))"
    by (simp add: fetch_crypto_data_def)
  have t: "\<not> truthy JNull" by simp
  from failed_fetch_iteration [OF f t, of Elapsed] show ?thesis
    by simp
qed

text \<open>The same over any number of passes in which every fetch fails.\<close>

lemma loop_failed_fetches:
  assumes "\<forall>env\<in>set envs. \<forall>w. \<exists>v w1. fetch_crypto_data (fst env) w = (Inr v, w1) \<and> \<not> truthy v"
  shows "committed (snd (loop envs w)) = committed w \<and> pending (snd (loop envs w)) = pending w \<and>
         (fst (loop envs w) = Inr () \<or> fst (loop envs w) = Inl KeyboardInterrupt)"
  using assms
proof (induction envs arbitrary: w)
  case Nil
  then show ?case by simp
next
  case (Cons env envs)
  from Cons.prems obtain v w1 where f: "fetch_crypto_data (fst env) w = (Inr v, w1)"
    and t: "\<not> truthy v"
    by (metis list.set_intros(1))
  from iteration_falsy [OF f t, of "snd env"]
  have it: "iteration env w = sleep (snd env) w1" by simp
  from fetch_crypto_data_frame [OF f]
  have fr: "committed w1 = committed w" "pending w1 = pending w" by simp_all
  from Cons.prems have rest: "\<forall>env\<in>set envs. \<forall>w. \<exists>v w1.
      fetch_crypto_data (fst env) w = (Inr v, w1) \<and> \<not> truthy v"
    by simp
  from sleep_cases [of "snd env" w1] show ?case
  proof
    assume "sleep (snd env) w1 = (Inr (), w1)"
    with it have "loop (env # envs) w = loop envs w1" by simp
    with Cons.IH [OF rest, of w1] fr show ?thesis by simp
  next
    assume "sleep (snd env) w1 = (Inl KeyboardInterrupt, w1)"
    with it have "loop (env # envs) w = (Inl KeyboardInterrupt, w1)" by simp
    with fr show ?thesis by simp
  qed
qed

lemma run_failed_fetches:
  assumes "\<forall>env\<in>set envs. \<forall>w. \<exists>v w1. fetch_crypto_data (fst env) w = (Inr v, w1) \<and> \<not> truthy v"
  shows "(\<exists>r. fst (run envs w) = Inr r) \<and> committed (snd (run envs w)) = committed w"
proof -
  let ?w0 = "print (Text ''Press Ctrl+C to stop'')
               (print (Text ''Starting cryptocurrency price tracker...'') w)"
  obtain r w' where l: "loop envs ?w0 = (r, w')" by (cases "loop envs ?w0")
  from loop_failed_fetches [OF assms, of ?w0] l
  have "committed w' = committed w" and "r = Inr () \<or> r = Inl KeyboardInterrupt"
    by (simp_all add: print_def)
  moreover have "run envs w =
          (case (r, w') of
             (Inr _, w') \<Rightarrow> (Inr Still_running, w')
           | (Inl e, w') \<Rightarrow>
               if e = KeyboardInterrupt
               then (Inr Stopped, close (print (Text ''Stopping price tracker...'') w'))
               else (Inl e, close w'))"
    unfolding run_def l ..
  ultimately show ?thesis
    by (auto simp: close_def print_def)
qed

section \<open>Properties of the latest-price query\<close>

text \<open>
  What holds of \<^verbatim>\<open>fetch_latest_prices\<close> on every table: on the empty table the result is
  empty; every returned row carries the greatest timestamp stored for its asset; every
  stored asset has a returned row; and no asset has two returned rows as long as no two
  stored rows share asset and timestamp.
\<close>

lemma fetch_latest_prices_Nil: "fetch_latest_prices [] = []"
  by (simp add: fetch_latest_prices_def)

lemma max_timestamps_iff:
  "(c, t) \<in> set (max_timestamps rows) \<longleftrightarrow>
     c \<in> cryptocurrency ` set rows \<and>
     t = Max (timestamp ` {r \<in> set rows. cryptocurrency r = c})"
  by (auto simp: max_timestamps_def)

lemma latest_is_max:
  assumes "(c, p, t) \<in> set (fetch_latest_prices rows)"
    and "r \<in> set rows" and "cryptocurrency r = c"
  shows "timestamp r \<le> t"
proof -
  from assms(1) have "t = Max (timestamp ` {r \<in> set rows. cryptocurrency r = c})"
    by (auto simp: fetch_latest_prices_def max_timestamps_iff)
  moreover have "timestamp r \<in> timestamp ` {r \<in> set rows. cryptocurrency r = c}"
    using assms(2,3) by simp
  ultimately show ?thesis by simp
qed

lemma latest_covers:
  assumes "r \<in> set rows"
  shows "\<exists>p t. (cryptocurrency r, p, t) \<in> set (fetch_latest_prices rows)"
proof -
  let ?S = "{r' \<in> set rows. cryptocurrency r' = cryptocurrency r}"
  have "finite (timestamp ` ?S)" and "timestamp ` ?S \<noteq> {}" using assms by auto
  then have "Max (timestamp ` ?S) \<in> timestamp ` ?S" by (rule Max_in)
  then obtain r' where r': "r' \<in> set rows" "cryptocurrency r' = cryptocurrency r"
    "timestamp r' = Max (timestamp ` ?S)"
    by auto
  with assms have "(cryptocurrency r', timestamp r') \<in> set (max_timestamps rows)"
    unfolding max_timestamps_iff by (intro conjI) (simp_all del: Max_in)
  with r'(1) have "r' \<in> set (filter (\<lambda>r. (cryptocurrency r, timestamp r) \<in> set (max_timestamps rows)) rows)"
    by simp
  then have "(cryptocurrency r', price_usd r', timestamp r') \<in> set (fetch_latest_prices rows)"
    unfolding fetch_latest_prices_def set_map by (rule rev_image_eqI) (rule refl)
  with r'(2) show ?thesis by auto
qed

lemma latest_unique:
  assumes "distinct (map (\<lambda>r. (cryptocurrency r, timestamp r)) rows)"
  shows "distinct (map fst (fetch_latest_prices rows))"
proof -
  let ?keep = "\<lambda>r. (cryptocurrency r, timestamp r) \<in> set (max_timestamps rows)"
  have "map fst (fetch_latest_prices rows) = map cryptocurrency (filter ?keep rows)"
    by (simp add: fetch_latest_prices_def comp_def)
  moreover have "distinct (map cryptocurrency (filter ?keep rows))"
  proof (rule distinct_map [THEN iffD2], intro conjI inj_onI)
    from assms show "distinct (filter ?keep rows)"
      by (simp add: distinct_map)
    fix x y
    assume "x \<in> set (filter ?keep rows)" "y \<in> set (filter ?keep rows)"
      and c: "cryptocurrency x = cryptocurrency y"
    then have "x \<in> set rows" "y \<in> set rows" "timestamp x = timestamp y"
      by (auto simp: max_timestamps_iff)
    with c assms show "x = y"
      by (auto simp: distinct_map dest: inj_onD)
  qed
  ultimately show ?thesis by simp
qed

text \<open>
  Claim C2 says that at most one row is returned per asset. The tracker stores
  timestamps to the second, so two passes within one second store two rows with the
  same asset and timestamp; the query then returns both. Below, two calls of
  \<^verbatim>\<open>save_to_database\<close> one millisecond apart, followed by the query.
\<close>

lemma save_payload':
  "save_to_database payload' (snd (save_to_database payload tracker0)) =
     (Inr (), tracker0\<lparr>committed :=
        [\<lparr>cryptocurrency = ''bitcoin'', timestamp = ''2024-01-01 12:00:00'', price_usd = SqlReal 100,
          market_cap_usd = SqlReal 2000, volume_usd = SqlReal 7, row_id = 1\<rparr>,
         \<lparr>cryptocurrency = ''ethereum'', timestamp = ''2024-01-01 12:00:00'', price_usd = SqlReal 20,
          market_cap_usd = SqlReal 300, volume_usd = SqlReal 4, row_id = 2\<rparr>,
         \<lparr>cryptocurrency = ''bitcoin'', timestamp = ''2024-01-01 12:00:00'', price_usd = SqlReal 110,
          market_cap_usd = SqlReal 2200, volume_usd = SqlReal 9, row_id = 3\<rparr>,
         \<lparr>cryptocurrency = ''ethereum'', timestamp = ''2024-01-01 12:00:00'', price_usd = SqlReal 21,
          market_cap_usd = SqlReal 310, volume_usd = SqlReal 5, row_id = 4\<rparr>],
        now_calls := 2\<rparr>)"
  by (simp add: save_payload)
     (simp add: save_to_database_def payload'_def quote_def tracker0_def now_def cryptos_def
      execute_insert_def new_row_def commit_def strftime_noon)

text \<open>
  Claim C2 at that table: \<^verbatim>\<open>fetch_latest_prices\<close> returns two rows for bitcoin and two
  for ethereum.
\<close>

theorem latest_prices_tie:
  "fetch_latest_prices
     (committed (snd (save_to_database payload' (snd (save_to_database payload tracker0))))) =
   [(''bitcoin'', SqlReal 100, ''2024-01-01 12:00:00''),
    (''ethereum'', SqlReal 20, ''2024-01-01 12:00:00''),
    (''bitcoin'', SqlReal 110, ''2024-01-01 12:00:00''),
    (''ethereum'', SqlReal 21, ''2024-01-01 12:00:00'')]"
  by (simp add: save_payload' fetch_latest_prices_def max_timestamps_def)

section \<open>Timestamps as text\<close>

text \<open>
  The table stores and compares timestamps as text. For valid clock readings the order
  of the texts is the order of the times to the second, so "greater timestamp" in the
  queries means "later".
\<close>

lemma digits_ascending: "sorted_wrt (<) ''0123456789''"
  by simp

lemma digit_less_iff: "digit a < digit b \<longleftrightarrow> a mod 10 < b mod 10"
proof
  assume "a mod 10 < b mod 10"
  then show "digit a < digit b"
    unfolding digit_def by (intro sorted_wrt_nth_less [OF digits_ascending]) simp_all
next
  assume l: "digit a < digit b"
  show "a mod 10 < b mod 10"
  proof (rule ccontr)
    assume "\<not> a mod 10 < b mod 10"
    then consider "b mod 10 < a mod 10" | "a mod 10 = b mod 10" by linarith
    then show False
    proof cases
      case 1
      then have "digit b < digit a"
        unfolding digit_def by (intro sorted_wrt_nth_less [OF digits_ascending]) simp_all
      with l show False by simp
    next
      case 2
      then have "digit a = digit b" by (simp add: digit_def)
      with l show False by simp
    qed
  qed
qed

lemma digit_eq_iff: "digit a = digit b \<longleftrightarrow> a mod 10 = b mod 10"
  using digit_eq_mod [of a b] by (auto simp: digit_def)

lemma div_mod_lex:
  fixes a b k :: nat
  shows "(a div k < b div k \<or> a div k = b div k \<and> (a mod k < b mod k \<or> a mod k = b mod k \<and> R))
         \<longleftrightarrow> (a < b \<or> a = b \<and> R)"
proof (cases "a div k = b div k")
  case True
  have a: "a = k * (a div k) + a mod k" and b: "b = k * (b div k) + b mod k" by simp_all
  from True a b have "a < b \<longleftrightarrow> a mod k < b mod k"
    by (metis nat_add_left_cancel_less)
  moreover from True a b have "a = b \<longleftrightarrow> a mod k = b mod k"
    by metis
  ultimately show ?thesis using True by simp
next
  case False
  have "a div k < b div k \<longleftrightarrow> a < b"
  proof
    assume "a div k < b div k"
    then have "\<not> b div k \<le> a div k" by simp
    then have "\<not> b \<le> a" using div_le_mono by blast
    then show "a < b" by simp
  next
    assume "a < b"
    then have "a div k \<le> b div k" by (simp add: div_le_mono)
    with False show "a div k < b div k" by simp
  qed
  moreover from False have "a \<noteq> b" by auto
  ultimately show ?thesis using False by simp
qed

lemma pad2_append_le:
  assumes "a < 100" "b < 100"
  shows "pad2 a @ xs \<le> pad2 b @ ys \<longleftrightarrow> a < b \<or> a = b \<and> xs \<le> ys"
proof -
  from assms have s: "a div 10 mod 10 = a div 10" "b div 10 mod 10 = b div 10" by simp_all
  have "pad2 a @ xs \<le> pad2 b @ ys \<longleftrightarrow>
        a div 10 < b div 10 \<or>
        a div 10 = b div 10 \<and> (a mod 10 < b mod 10 \<or> a mod 10 = b mod 10 \<and> xs \<le> ys)"
    by (simp add: pad2_def digit_less_iff digit_eq_iff s)
  then show ?thesis by (simp only: div_mod_lex)
qed


lemma pad4_split: "pad4 n = pad2 (n div 100) @ pad2 (n mod 100)"
proof -
  have "n div 1000 = n div 100 div 10" by (simp add: div_mult2_eq [symmetric])
  moreover have "n mod 100 = 10 * (n div 10 mod 10) + n mod 10"
    using mod_mult2_eq [of n 10 10] by simp
  then have "n mod 100 div 10 = n div 10 mod 10" by simp
  then have "digit (n div 10) = digit (n mod 100 div 10)"
    by (simp add: digit_eq_iff)
  moreover have "n mod 100 mod 10 = n mod 10"
    by (simp add: mod_mod_cancel)
  then have "digit n = digit (n mod 100)"
    by (simp add: digit_eq_iff)
  ultimately show ?thesis by (simp add: pad4_def pad2_def)
qed

lemma pad4_append_le:
  assumes "a < 10000" "b < 10000"
  shows "pad4 a @ xs \<le> pad4 b @ ys \<longleftrightarrow> a < b \<or> a = b \<and> xs \<le> ys"
proof -
  from assms have h: "a div 100 < 100" "b div 100 < 100" by simp_all
  have l: "a mod 100 < 100" "b mod 100 < 100" by simp_all
  have "pad4 a @ xs \<le> pad4 b @ ys \<longleftrightarrow>
        a div 100 < b div 100 \<or> a div 100 = b div 100 \<and>
          (a mod 100 < b mod 100 \<or> a mod 100 = b mod 100 \<and> xs \<le> ys)"
    by (simp add: pad4_split pad2_append_le [OF h] pad2_append_le [OF l])
  then show ?thesis by (simp only: div_mod_lex)
qed

text \<open>Timestamps compare as text the way the clock readings compare as times.\<close>

lemma strftime_le_iff:
  assumes "valid_datetime a" "valid_datetime b"
  shows "strftime a \<le> strftime b \<longleftrightarrow>
         [year a, month a, day a, hour a, minute a, second a] \<le>
         [year b, month b, day b, hour b, minute b, second b]"
proof -
  from assms have y: "year a < 10000" "year b < 10000"
    and mo: "month a < 100" "month b < 100" and d: "day a < 100" "day b < 100"
    and h: "hour a < 100" "hour b < 100" and mi: "minute a < 100" "minute b < 100"
    and s: "second a < 100" "second b < 100"
    by (simp_all add: valid_datetime_def)
  have last: "pad2 (second a) \<le> pad2 (second b) \<longleftrightarrow> second a \<le> second b"
    using pad2_append_le [OF s, of "[]" "[]"] by auto
  show ?thesis
    unfolding strftime_def
    by (simp add: pad4_append_le [OF y] pad2_append_le [OF mo] pad2_append_le [OF d]
          pad2_append_le [OF h] pad2_append_le [OF mi] last) auto
qed

end
